theory Spec2Isabelle
  imports Main "HOL-Library.AList" "HOL-Library.Word"
begin

section \<open>JavaScript values\<close>

text \<open>
  A JavaScript string is a sequence of UTF-16 code units; a code unit is a natural number
  below 65536. \<open>js\<close> turns an ASCII literal into such a string.
\<close>

type_synonym jsstring = "nat list"

definition js :: "string \<Rightarrow> jsstring" where
  "js s = map of_char s"

text \<open>
  The values a configuration can hold. A number is an integer from \<open>-2^53\<close> to \<open>2^53 - 1\<close>,
  held as a 54-bit word that \<open>sint\<close> reads: each of them is a JavaScript number exactly, and
  JavaScript prints it in plain decimal. Fractions, \<open>NaN\<close>, the infinities and larger
  magnitudes have no value here. An object is its list of own properties, all of them data
  properties; functions are not values of the model, so no property is callable.
\<close>

datatype jsval =
    Undefined
  | Null
  | Bool bool
  | Num "54 word"
  | Str jsstring
  | Obj "(string \<times> jsval) list"

type_synonym object = "(string \<times> jsval) list"

text \<open>The truthiness test behind \<open>if (x)\<close>, \<open>!x\<close> and \<open>x ? a : b\<close>.\<close>

fun truthy :: "jsval \<Rightarrow> bool" where
  "truthy Undefined = False"
| "truthy Null = False"
| "truthy (Bool b) = b"
| "truthy (Num n) = (n \<noteq> 0)"
| "truthy (Str s) = (s \<noteq> [])"
| "truthy (Obj ps) = True"

text \<open>
  \<open>property obj k\<close> is the property read \<open>obj.k\<close> on an object: the stored value, and
  \<open>undefined\<close> for a property that is absent.
\<close>

definition property :: "object \<Rightarrow> string \<Rightarrow> jsval" where
  "property ps k = (case map_of ps k of Some v \<Rightarrow> v | None \<Rightarrow> Undefined)"

text \<open>
  \<open>getprop v k\<close> is the property read \<open>v.k\<close> on a value the code has already found truthy.
  The client reads only \<open>consumer_key\<close>, \<open>private_key\<close>, \<open>token\<close>, \<open>token_secret\<close>, \<open>username\<close>
  and \<open>password\<close> this way; a boolean, a number or a string has none of them, so the read
  gives \<open>undefined\<close> there.
\<close>

fun getprop :: "jsval \<Rightarrow> string \<Rightarrow> jsval" where
  "getprop (Obj ps) k = property ps k"
| "getprop v k = Undefined"

section \<open>Errors\<close>

text \<open>
  Modelled from the spec: the message constants of \<open>lib/error\<close>, which the client only names.
  The spec (sections 7 and 9) gives each configuration failure its own distinct message, one
  per constant; the constants are kept by name.
\<close>

datatype errorStrings =
    NO_HOST_ERROR
  | NO_AUTHENTICATION_ERROR
  | NO_CONSUMER_KEY_ERROR
  | NO_PRIVATE_KEY_ERROR
  | NO_OAUTH_TOKEN_ERROR
  | NO_OAUTH_TOKEN_SECRET_ERROR
  | NO_USERNAME_ERROR
  | NO_PASSWORD_ERROR
  | INVALID_AUTHENTICATION_PROPERTY_ERROR

text \<open>
  What a call can throw: \<open>new Error(message)\<close> from the constructor, and the two built-in
  errors of the platform functions the client calls.
\<close>

datatype exn =
    Error errorStrings
  | TypeError
  | URIError

text \<open>
  \<open>setprop v k x\<close> is the assignment \<open>v.k = x\<close>. The file is in strict mode, where
  assigning a property on a primitive throws a \<open>TypeError\<close>.
\<close>

fun setprop :: "jsval \<Rightarrow> string \<Rightarrow> jsval \<Rightarrow> exn + jsval" where
  "setprop (Obj ps) k x = Inr (Obj (AList.update k x ps))"
| "setprop v k x = Inl TypeError"

section \<open>The client and its constructor\<close>

text \<open>
  The fields the constructor sets on \<open>this\<close>. A field the constructor never assigns reads as
  \<open>undefined\<close>. The \<open>issue\<close> sub-resource is built by \<open>api/issue\<close>, a collaborator outside
  this file that only keeps a reference to the client; it is left out.
\<close>

record client =
  host :: jsval
  protocol :: jsval
  port :: jsval
  version :: jsval
  oauthConfig :: jsval
  basic_auth :: jsval

definition JiraClient :: "object \<Rightarrow> exn + client" where
  "JiraClient config =
    (if \<not> truthy (property config ''host'') then Inl (Error NO_HOST_ERROR)
     else
       let this = \<lparr> host = property config ''host'',
                    protocol = (if truthy (property config ''protocol'')
                                then property config ''protocol'' else Str (js ''https'')),
                    port = property config ''port'',
                    version = Num 2,
                    oauthConfig = Undefined,
                    basic_auth = Undefined \<rparr>
       in
       if \<not> truthy (property config ''oauth'') \<and> \<not> truthy (property config ''basic_auth'')
       then Inl (Error NO_AUTHENTICATION_ERROR)
       else if truthy (property config ''oauth'') then
         (if \<not> truthy (getprop (property config ''oauth'') ''consumer_key'')
          then Inl (Error NO_CONSUMER_KEY_ERROR)
          else if \<not> truthy (getprop (property config ''oauth'') ''private_key'')
          then Inl (Error NO_PRIVATE_KEY_ERROR)
          else if \<not> truthy (getprop (property config ''oauth'') ''token'')
          then Inl (Error NO_OAUTH_TOKEN_ERROR)
          else if \<not> truthy (getprop (property config ''oauth'') ''token_secret'')
          then Inl (Error NO_OAUTH_TOKEN_SECRET_ERROR)
          else
            (case setprop (property config ''oauth'') ''signature_method'' (Str (js ''RSA-SHA1'')) of
               Inl e \<Rightarrow> Inl e
             | Inr oa \<Rightarrow> Inr (this \<lparr> oauthConfig := oa \<rparr>)))
       else if truthy (property config ''basic_auth'') then
         (if \<not> truthy (getprop (property config ''basic_auth'') ''username'')
          then Inl (Error NO_USERNAME_ERROR)
          else if \<not> truthy (getprop (property config ''basic_auth'') ''password'')
          then Inl (Error NO_PASSWORD_ERROR)
          else
            Inr (this \<lparr> basic_auth :=
                   Obj [(''user'', getprop (property config ''basic_auth'') ''username''),
                        (''pass'', getprop (property config ''basic_auth'') ''password'')] \<rparr>))
       else Inl (Error INVALID_AUTHENTICATION_PROPERTY_ERROR))"

section \<open>Dispatching a request\<close>

text \<open>
  \<open>makeRequest\<close> has two effects a caller can see: it calls \<open>callback\<close> itself, and it hands
  the options and the callback to the transport (\<open>request\<close>). Both are recorded, in the
  order they happen, next to the options object as the assignments leave it.
\<close>

datatype event =
    Callback errorStrings
  | Request object

definition makeRequest :: "client \<Rightarrow> object \<Rightarrow> object \<times> event list" where
  "makeRequest this options =
    (let (options', called) =
       (if truthy (oauthConfig this)
        then (AList.update ''oauth'' (oauthConfig this) options, [])
        else if truthy (basic_auth this)
        then (AList.update ''auth'' (basic_auth this) options, [])
        else (options, [Callback NO_AUTHENTICATION_ERROR]))
     in (options', called @ [Request options']))"

section \<open>Building a URL\<close>

subsection \<open>String coercion\<close>

text \<open>
  The decimal digits of a natural number, and \<open>ToString\<close>, the coercion that \<open>+\<close> and the
  string methods apply to a value that is not a string. An object is first made primitive:
  its \<open>toString\<close> is called when it is callable. An own \<open>toString\<close> property of an object of
  the model is never callable, and then no other method yields a primitive, so the coercion
  throws a \<open>TypeError\<close>; without one the inherited method answers \<open>[object Object]\<close>.
\<close>

fun string_of_nat :: "nat \<Rightarrow> jsstring" where
  "string_of_nat n =
     (if n < 10 then [48 + n] else string_of_nat (n div 10) @ [48 + n mod 10])"

declare string_of_nat.simps [simp del]

fun ToString :: "jsval \<Rightarrow> exn + jsstring" where
  "ToString Undefined = Inr (js ''undefined'')"
| "ToString Null = Inr (js ''null'')"
| "ToString (Bool b) = Inr (if b then js ''true'' else js ''false'')"
| "ToString (Num n) =
     Inr (if sint n < 0 then js ''-'' @ string_of_nat (nat (- sint n))
          else string_of_nat (nat (sint n)))"
| "ToString (Str s) = Inr s"
| "ToString (Obj ps) =
     (if map_of ps ''toString'' = None then Inr (js ''[object Object]'') else Inl TypeError)"

subsection \<open>The platform's \<open>url.format\<close>\<close>

text \<open>
  \<open>url.format\<close> belongs to the platform's \<open>url\<close> module, not to this repository. It is
  modelled after \<open>Url.prototype.format\<close> of Node's \<open>lib/url.js\<close>, on the four properties
  \<open>buildURL\<close> passes (\<open>protocol\<close>, \<open>hostname\<close>, \<open>port\<close>, \<open>pathname\<close>); \<open>auth\<close>, \<open>host\<close>,
  \<open>query\<close>, \<open>search\<close>, \<open>hash\<close> and \<open>slashes\<close> are absent from that object. The function
  does not test the types of \<open>protocol\<close>, \<open>hostname\<close> and \<open>port\<close>: it applies string methods
  and \<open>+\<close> to them, which coerce.
\<close>

definition slashedProtocol :: "jsstring list" where
  "slashedProtocol = map js
     [''http'', ''http:'', ''https'', ''https:'', ''ftp'', ''ftp:'', ''gopher'', ''gopher:'',
      ''file'', ''file:'', ''ws'', ''ws:'', ''wss'', ''wss:'']"

text \<open>In the pathname every \<open>#\<close> becomes \<open>%23\<close> and every \<open>?\<close> becomes \<open>%3F\<close>.\<close>

fun escape_pathname :: "jsstring \<Rightarrow> jsstring" where
  "escape_pathname [] = []"
| "escape_pathname (c # cs) =
     (if c = 35 then js ''%23'' @ escape_pathname cs
      else if c = 63 then js ''%3F'' @ escape_pathname cs
      else c # escape_pathname cs)"

definition isIpv6Hostname :: "jsstring \<Rightarrow> bool" where
  "isIpv6Hostname hostname = (hostname \<noteq> [] \<and> hd hostname = 91 \<and> last hostname = 93)"

text \<open>
  The host part: empty for a falsy \<open>hostname\<close>; otherwise the hostname as a string, in
  square brackets when it contains a colon and is not bracketed already, followed by \<open>:\<close>
  and the port when the port is truthy. The bracket test is reached only when the string
  contains a colon, which the string of a number, a boolean or an object never does.
\<close>

definition format_host :: "jsval \<Rightarrow> jsval \<Rightarrow> exn + jsstring" where
  "format_host hostname_arg port_arg =
    (if \<not> truthy hostname_arg then Inr []
     else
       (case ToString hostname_arg of
          Inl e \<Rightarrow> Inl e
        | Inr hostname \<Rightarrow>
            let bracketed = (if 58 \<in> set hostname \<and> \<not> isIpv6Hostname hostname
                             then js ''['' @ hostname @ js '']'' else hostname)
            in if truthy port_arg then
                 (case ToString port_arg of
                    Inl e \<Rightarrow> Inl e
                  | Inr port_string \<Rightarrow> Inr (bracketed @ js '':'' @ port_string))
               else Inr bracketed))"

text \<open>
  The protocol part: empty for a falsy \<open>protocol\<close>; otherwise the protocol with a colon
  appended unless its last character is one,
  \<open>charCodeAt(protocol, protocol.length - 1) !== 58\<close>. On a value that is not a string,
  \<open>protocol.length\<close> is \<open>undefined\<close> for a number or a boolean and a property read for an
  object; it is made a number, then the protocol is made a string, and either coercion can
  throw (making a value a number throws exactly when making it a string does). The
  character found is never a colon there (the strings of numbers, booleans and objects hold
  none), so the colon is appended.
\<close>

definition format_protocol :: "jsval \<Rightarrow> exn + jsstring" where
  "format_protocol protocol_arg =
    (if \<not> truthy protocol_arg then Inr []
     else
       (case protocol_arg of
          Str s \<Rightarrow> Inr (if last s \<noteq> 58 then s @ js '':'' else s)
        | Obj ps \<Rightarrow>
            (case ToString (property ps ''length'') of
               Inl e \<Rightarrow> Inl e
             | Inr len \<Rightarrow>
                 (case ToString protocol_arg of
                    Inl e \<Rightarrow> Inl e
                  | Inr s \<Rightarrow> Inr (s @ js '':'')))
        | _ \<Rightarrow>
            (case ToString protocol_arg of
               Inl e \<Rightarrow> Inl e
             | Inr s \<Rightarrow> Inr (s @ js '':''))))"

definition url_format :: "jsval \<Rightarrow> jsval \<Rightarrow> jsval \<Rightarrow> jsstring \<Rightarrow> exn + jsstring" where
  "url_format protocol_arg hostname_arg port_arg pathname_arg =
    (case format_host hostname_arg port_arg of
       Inl e \<Rightarrow> Inl e
     | Inr host_string \<Rightarrow>
         (case format_protocol protocol_arg of
            Inl e \<Rightarrow> Inl e
          | Inr protocol_string \<Rightarrow>
              let pathname = escape_pathname pathname_arg
              in
              if protocol_string \<in> set slashedProtocol then
                (if host_string \<noteq> [] then
                   Inr (protocol_string @ js ''//'' @ host_string
                        @ (if pathname \<noteq> [] \<and> hd pathname \<noteq> 47 then js ''/'' @ pathname
                           else pathname))
                 else if take 4 protocol_string = js ''file''
                 then Inr (protocol_string @ js ''//'' @ pathname)
                 else Inr (protocol_string @ pathname))
              else Inr (protocol_string @ host_string @ pathname)))"

subsection \<open>The built-in \<open>decodeURIComponent\<close>\<close>

text \<open>
  \<open>decodeURIComponent\<close> is the language's own function (ECMAScript, abstract operation
  \<open>Decode\<close> with an empty reserved set). A \<open>%\<close> must be followed by two hexadecimal digits;
  an octet of \<open>0x80\<close> and above starts a UTF-8 sequence of two to four such escapes, which
  must encode a code point validly; anything else throws a \<open>URIError\<close>.
\<close>

definition is_hex :: "nat \<Rightarrow> bool" where
  "is_hex c = ((48 \<le> c \<and> c \<le> 57) \<or> (65 \<le> c \<and> c \<le> 70) \<or> (97 \<le> c \<and> c \<le> 102))"

definition hex_val :: "nat \<Rightarrow> nat" where
  "hex_val c = (if c \<le> 57 then c - 48 else if c \<le> 70 then c - 55 else c - 87)"

text \<open>The two hexadecimal digits after a \<open>%\<close>: the octet they spell and what follows them.\<close>

definition hex_pair :: "jsstring \<Rightarrow> (nat \<times> jsstring) option" where
  "hex_pair cs =
     (case cs of
        a # b # rest \<Rightarrow>
          if is_hex a \<and> is_hex b then Some (16 * hex_val a + hex_val b, rest) else None
      | _ \<Rightarrow> None)"

text \<open>A continuation octet: a \<open>%\<close>, two hexadecimal digits, and the top two bits \<open>10\<close>.\<close>

definition continuation :: "jsstring \<Rightarrow> (nat \<times> jsstring) option" where
  "continuation cs =
     (case cs of
        [] \<Rightarrow> None
      | c # cs' \<Rightarrow>
          if c \<noteq> 37 then None
          else (case hex_pair cs' of
                  None \<Rightarrow> None
                | Some (b, rest) \<Rightarrow> if 128 \<le> b \<and> b < 192 then Some (b, rest) else None))"

fun continuations :: "nat \<Rightarrow> jsstring \<Rightarrow> (nat list \<times> jsstring) option" where
  "continuations 0 cs = Some ([], cs)"
| "continuations (Suc n) cs =
     (case continuation cs of
        None \<Rightarrow> None
      | Some (b, rest) \<Rightarrow>
          (case continuations n rest of
             None \<Rightarrow> None
           | Some (bs, rest') \<Rightarrow> Some (b # bs, rest')))"

text \<open>
  The number of octets a leading octet announces (its leading one bits), and the code point
  of a sequence, when the sequence is valid UTF-8: not overlong, not a surrogate, and at most
  \<open>0x10FFFF\<close>.
\<close>

definition octets :: "nat \<Rightarrow> nat" where
  "octets b = (if b < 224 then 2 else if b < 240 then 3 else 4)"

definition utf8_value :: "nat \<Rightarrow> nat list \<Rightarrow> nat option" where
  "utf8_value b bs =
     (case bs of
        [b1] \<Rightarrow>
          (let v = (b - 192) * 64 + (b1 - 128)
           in if 128 \<le> v then Some v else None)
      | [b1, b2] \<Rightarrow>
          (let v = (b - 224) * 4096 + (b1 - 128) * 64 + (b2 - 128)
           in if 2048 \<le> v \<and> \<not> (55296 \<le> v \<and> v \<le> 57343) then Some v else None)
      | [b1, b2, b3] \<Rightarrow>
          (let v = (b - 240) * 262144 + (b1 - 128) * 4096 + (b2 - 128) * 64 + (b3 - 128)
           in if 65536 \<le> v \<and> v \<le> 1114111 then Some v else None)
      | _ \<Rightarrow> None)"

text \<open>A code point as UTF-16: itself, or a surrogate pair from \<open>0x10000\<close> on.\<close>

definition utf16 :: "nat \<Rightarrow> jsstring" where
  "utf16 v =
     (if v < 65536 then [v]
      else [55296 + (v - 65536) div 1024, 56320 + (v - 65536) mod 1024])"

lemma hex_pair_length: "hex_pair cs = Some (b, rest) \<Longrightarrow> length rest < length cs"
  by (auto simp: hex_pair_def split: list.splits if_splits)

lemma continuation_length: "continuation cs = Some (b, rest) \<Longrightarrow> length rest < length cs"
  by (auto simp: continuation_def split: list.splits if_splits option.splits
           dest: hex_pair_length)

lemma continuations_length: "continuations n cs = Some (bs, rest) \<Longrightarrow> length rest \<le> length cs"
proof (induction n arbitrary: cs bs)
  case 0
  then show ?case by simp
next
  case (Suc n)
  then show ?case
    by (fastforce split: option.splits dest: continuation_length)
qed

function decodeURIComponent :: "jsstring \<Rightarrow> exn + jsstring" where
  "decodeURIComponent [] = Inr []"
| "decodeURIComponent (c # cs) =
     (if c \<noteq> 37 then
        (case decodeURIComponent cs of Inl e \<Rightarrow> Inl e | Inr r \<Rightarrow> Inr (c # r))
      else
        (case hex_pair cs of
           None \<Rightarrow> Inl URIError
         | Some (b, rest) \<Rightarrow>
             if b < 128 then
               (case decodeURIComponent rest of Inl e \<Rightarrow> Inl e | Inr r \<Rightarrow> Inr (b # r))
             else if b < 192 \<or> 248 \<le> b then Inl URIError
             else
               (case continuations (octets b - 1) rest of
                  None \<Rightarrow> Inl URIError
                | Some (bs, rest') \<Rightarrow>
                    (case utf8_value b bs of
                       None \<Rightarrow> Inl URIError
                     | Some v \<Rightarrow>
                         (case decodeURIComponent rest' of
                            Inl e \<Rightarrow> Inl e
                          | Inr r \<Rightarrow> Inr (utf16 v @ r))))))"
  by pat_completeness auto
termination
  by (relation "measure length")
     (auto dest!: hex_pair_length continuations_length)

subsection \<open>\<open>buildURL\<close>\<close>

definition buildURL :: "client \<Rightarrow> jsstring \<Rightarrow> exn + jsstring" where
  "buildURL this path =
    (let apiBasePath = js ''rest/api/''
     in case ToString (version this) of
          Inl e \<Rightarrow> Inl e
        | Inr version_string \<Rightarrow>
            (case url_format (protocol this) (host this) (port this)
                    (apiBasePath @ version_string @ path) of
               Inl e \<Rightarrow> Inl e
             | Inr requestUrl \<Rightarrow> decodeURIComponent requestUrl))"

section \<open>Reading and writing properties\<close>

lemma property_update:
  "property (AList.update k v ps) k' = (if k' = k then v else property ps k')"
  by (simp add: property_def update_conv')

lemma property_delete:
  "property (AList.delete k ps) k' = (if k' = k then Undefined else property ps k')"
  by (simp add: property_def delete_conv')

lemma truthy_getprop_Obj: "truthy (getprop v k) \<Longrightarrow> \<exists>ps. v = Obj ps"
  by (cases v) simp_all

section \<open>Construction: the host\<close>

text \<open>
  Claim C4. A configuration whose host is missing is rejected with the host-missing error,
  whatever its other fields hold, authentication included. The constructor tests the host by
  truthiness, so an absent host (which reads as \<open>undefined\<close>) is one way of failing the test;
  no other property of the configuration is constrained.
\<close>

theorem C4_missing_host:
  "\<not> truthy (property config ''host'') \<Longrightarrow> JiraClient config = Inl (Error NO_HOST_ERROR)"
  by (simp add: JiraClient_def)

theorem C4_missing_host_witness:
  "map_of [(''protocol'', Str (js ''http'')), (''port'', Num 8080),
           (''oauth'', Obj [(''consumer_key'', Str (js ''ck'')), (''private_key'', Str (js ''pk'')),
                            (''token'', Str (js ''t'')), (''token_secret'', Str (js ''ts''))])]
     ''host'' = None
   \<and> JiraClient [(''protocol'', Str (js ''http'')), (''port'', Num 8080),
           (''oauth'', Obj [(''consumer_key'', Str (js ''ck'')), (''private_key'', Str (js ''pk'')),
                            (''token'', Str (js ''t'')), (''token_secret'', Str (js ''ts''))])]
     = Inl (Error NO_HOST_ERROR)"
  using C4_missing_host [of "[(''protocol'', Str (js ''http'')), (''port'', Num 8080),
           (''oauth'', Obj [(''consumer_key'', Str (js ''ck'')), (''private_key'', Str (js ''pk'')),
                            (''token'', Str (js ''t'')), (''token_secret'', Str (js ''ts''))])]"]
  by (simp add: property_def)

section \<open>Construction: no authentication\<close>

text \<open>
  Claim C5. A configuration that has a host (one that passes the host test) and holds neither
  an \<open>oauth\<close> nor a \<open>basic_auth\<close> record is rejected with the no-authentication error.
\<close>

theorem C5_no_authentication:
  "truthy (property config ''host'') \<Longrightarrow> \<not> truthy (property config ''oauth'') \<Longrightarrow>
   \<not> truthy (property config ''basic_auth'') \<Longrightarrow>
   JiraClient config = Inl (Error NO_AUTHENTICATION_ERROR)"
  by (simp add: JiraClient_def)

theorem C5_no_authentication_witness:
  "JiraClient [(''host'', Str (js ''example.com'')), (''port'', Num 8080)]
     = Inl (Error NO_AUTHENTICATION_ERROR)"
  using C5_no_authentication [of "[(''host'', Str (js ''example.com'')), (''port'', Num 8080)]"]
  by (simp add: property_def js_def)

text \<open>
  Claim C9. The last \<open>else\<close> of the constructor cannot be reached: whatever the
  configuration, construction never fails with \<open>INVALID_AUTHENTICATION_PROPERTY_ERROR\<close>.
  A configuration that gets past the no-authentication check has a truthy \<open>oauth\<close> or a
  truthy \<open>basic_auth\<close>, and then the first or the second branch is taken.
\<close>

theorem C9_invalid_authentication_unreachable:
  "JiraClient config \<noteq> Inl (Error INVALID_AUTHENTICATION_PROPERTY_ERROR)"
  by (auto simp: JiraClient_def Let_def split: sum.splits dest: truthy_getprop_Obj)

section \<open>Construction: OAuth\<close>

text \<open>What a successful construction stores, by the branch it took.\<close>

lemma JiraClient_oauth_stored:
  assumes "JiraClient config = Inr c" and "truthy (property config ''oauth'')"
  shows "\<exists>oa. property config ''oauth'' = Obj oa
              \<and> oauthConfig c = Obj (AList.update ''signature_method'' (Str (js ''RSA-SHA1'')) oa)
              \<and> basic_auth c = Undefined"
proof -
  from assms have "truthy (getprop (property config ''oauth'') ''consumer_key'')"
    by (auto simp: JiraClient_def Let_def split: if_splits)
  then obtain oa where oa: "property config ''oauth'' = Obj oa"
    by (auto dest: truthy_getprop_Obj)
  with assms show ?thesis
    by (auto simp: JiraClient_def Let_def split: if_splits)
qed

lemma JiraClient_basic_stored:
  assumes "JiraClient config = Inr c" and "\<not> truthy (property config ''oauth'')"
  shows "oauthConfig c = Undefined
       \<and> basic_auth c = Obj [(''user'', getprop (property config ''basic_auth'') ''username''),
                             (''pass'', getprop (property config ''basic_auth'') ''password'')]"
  using assms by (auto simp: JiraClient_def Let_def split: if_splits)

text \<open>
  Claim C3, as stated: whenever OAuth credentials are present and one of \<open>consumer_key\<close>,
  \<open>private_key\<close>, \<open>token\<close>, \<open>token_secret\<close> is missing, construction fails with the error of
  the first missing field. It fails on a configuration without a host: the host is tested
  first, so \<open>{oauth: {private_key, token, token_secret}}\<close> is rejected with the host-missing
  error, not with the consumer-key error.
\<close>

theorem C3_first_missing_oauth_field_counterexample:
  "truthy (property [(''oauth'', Obj [(''private_key'', Str (js ''pk'')), (''token'', Str (js ''t'')),
                                      (''token_secret'', Str (js ''ts''))])] ''oauth'')
   \<and> \<not> truthy (getprop (property [(''oauth'', Obj [(''private_key'', Str (js ''pk'')),
                       (''token'', Str (js ''t'')), (''token_secret'', Str (js ''ts''))])] ''oauth'')
                  ''consumer_key'')
   \<and> JiraClient [(''oauth'', Obj [(''private_key'', Str (js ''pk'')), (''token'', Str (js ''t'')),
                                   (''token_secret'', Str (js ''ts''))])]
       = Inl (Error NO_HOST_ERROR)
   \<and> JiraClient [(''oauth'', Obj [(''private_key'', Str (js ''pk'')), (''token'', Str (js ''t'')),
                                   (''token_secret'', Str (js ''ts''))])]
       \<noteq> Inl (Error NO_CONSUMER_KEY_ERROR)"
  by (simp add: JiraClient_def property_def)

text \<open>
  Claim C3, amended: for every configuration that has a host and in which OAuth credentials
  are present, if at least one of \<open>consumer_key\<close>, \<open>private_key\<close>, \<open>token\<close>,
  \<open>token_secret\<close> is missing (fails the truthiness test), construction fails with the error
  of the first missing field in that order, and with no other error.
\<close>

theorem C3_first_missing_oauth_field:
  assumes "truthy (property config ''host'')"
    and "truthy (property config ''oauth'')"
  shows "(\<not> truthy (getprop (property config ''oauth'') ''consumer_key'') \<longrightarrow>
            JiraClient config = Inl (Error NO_CONSUMER_KEY_ERROR))
       \<and> (truthy (getprop (property config ''oauth'') ''consumer_key'') \<and>
          \<not> truthy (getprop (property config ''oauth'') ''private_key'') \<longrightarrow>
            JiraClient config = Inl (Error NO_PRIVATE_KEY_ERROR))
       \<and> (truthy (getprop (property config ''oauth'') ''consumer_key'') \<and>
          truthy (getprop (property config ''oauth'') ''private_key'') \<and>
          \<not> truthy (getprop (property config ''oauth'') ''token'') \<longrightarrow>
            JiraClient config = Inl (Error NO_OAUTH_TOKEN_ERROR))
       \<and> (truthy (getprop (property config ''oauth'') ''consumer_key'') \<and>
          truthy (getprop (property config ''oauth'') ''private_key'') \<and>
          truthy (getprop (property config ''oauth'') ''token'') \<and>
          \<not> truthy (getprop (property config ''oauth'') ''token_secret'') \<longrightarrow>
            JiraClient config = Inl (Error NO_OAUTH_TOKEN_SECRET_ERROR))"
  using assms by (simp add: JiraClient_def)

theorem C3_first_missing_oauth_field_witness:
  "JiraClient [(''host'', Str (js ''h'')), (''oauth'', Obj [])]
     = Inl (Error NO_CONSUMER_KEY_ERROR)
   \<and> JiraClient [(''host'', Str (js ''h'')),
                 (''oauth'', Obj [(''consumer_key'', Str (js ''ck'')), (''token'', Str (js ''t''))])]
     = Inl (Error NO_PRIVATE_KEY_ERROR)
   \<and> JiraClient [(''host'', Str (js ''h'')),
                 (''oauth'', Obj [(''consumer_key'', Str (js ''ck'')), (''private_key'', Str (js ''pk''))])]
     = Inl (Error NO_OAUTH_TOKEN_ERROR)
   \<and> JiraClient [(''host'', Str (js ''h'')),
                 (''oauth'', Obj [(''consumer_key'', Str (js ''ck'')), (''private_key'', Str (js ''pk'')),
                                  (''token'', Str (js ''t''))])]
     = Inl (Error NO_OAUTH_TOKEN_SECRET_ERROR)"
  using
    C3_first_missing_oauth_field [of "[(''host'', Str (js ''h'')), (''oauth'', Obj [])]"]
    C3_first_missing_oauth_field [of "[(''host'', Str (js ''h'')),
                 (''oauth'', Obj [(''consumer_key'', Str (js ''ck'')), (''token'', Str (js ''t''))])]"]
    C3_first_missing_oauth_field [of "[(''host'', Str (js ''h'')),
                 (''oauth'', Obj [(''consumer_key'', Str (js ''ck'')), (''private_key'', Str (js ''pk''))])]"]
    C3_first_missing_oauth_field [of "[(''host'', Str (js ''h'')),
                 (''oauth'', Obj [(''consumer_key'', Str (js ''ck'')), (''private_key'', Str (js ''pk'')),
                                  (''token'', Str (js ''t''))])]"]
  by (simp add: property_def js_def)

text \<open>
  Claim C6. When construction succeeds on a configuration with OAuth credentials, the signing
  configuration stored on the client has \<open>signature_method\<close> equal to \<open>RSA-SHA1\<close>, whatever
  \<open>signature_method\<close> the input carried.
\<close>

theorem C6_signature_method:
  "JiraClient config = Inr c \<Longrightarrow> truthy (property config ''oauth'') \<Longrightarrow>
   getprop (oauthConfig c) ''signature_method'' = Str (js ''RSA-SHA1'')"
  by (auto simp: JiraClient_def Let_def property_update split: sum.splits if_splits
           dest!: truthy_getprop_Obj)

theorem C6_signature_method_witness:
  "JiraClient [(''host'', Str (js ''example.com'')),
               (''oauth'', Obj [(''consumer_key'', Str (js ''ck'')), (''private_key'', Str (js ''pk'')),
                                (''token'', Str (js ''t'')), (''token_secret'', Str (js ''ts'')),
                                (''signature_method'', Str (js ''HMAC-SHA1''))])]
     = Inr \<lparr> host = Str (js ''example.com''), protocol = Str (js ''https''), port = Undefined,
             version = Num 2,
             oauthConfig = Obj [(''consumer_key'', Str (js ''ck'')), (''private_key'', Str (js ''pk'')),
                                (''token'', Str (js ''t'')), (''token_secret'', Str (js ''ts'')),
                                (''signature_method'', Str (js ''RSA-SHA1''))],
             basic_auth = Undefined \<rparr>
   \<and> getprop (Obj [(''consumer_key'', Str (js ''ck'')), (''private_key'', Str (js ''pk'')),
                    (''token'', Str (js ''t'')), (''token_secret'', Str (js ''ts'')),
                    (''signature_method'', Str (js ''RSA-SHA1''))]) ''signature_method''
       = Str (js ''RSA-SHA1'')"
proof -
  let ?cfg = "[(''host'', Str (js ''example.com'')),
               (''oauth'', Obj [(''consumer_key'', Str (js ''ck'')), (''private_key'', Str (js ''pk'')),
                                (''token'', Str (js ''t'')), (''token_secret'', Str (js ''ts'')),
                                (''signature_method'', Str (js ''HMAC-SHA1''))])]"
  let ?c = "\<lparr> host = Str (js ''example.com''), protocol = Str (js ''https''), port = Undefined,
             version = Num 2,
             oauthConfig = Obj [(''consumer_key'', Str (js ''ck'')), (''private_key'', Str (js ''pk'')),
                                (''token'', Str (js ''t'')), (''token_secret'', Str (js ''ts'')),
                                (''signature_method'', Str (js ''RSA-SHA1''))],
             basic_auth = Undefined \<rparr>"
  have built: "JiraClient ?cfg = Inr ?c"
    by (simp add: JiraClient_def property_def js_def)
  have present: "truthy (property ?cfg ''oauth'')"
    by (simp add: property_def)
  from C6_signature_method [OF built present] built show ?thesis by simp
qed

text \<open>
  Claim C8, as stated: every configuration that supplies both complete OAuth credentials and
  basic-auth credentials is constructed successfully. It fails on such a configuration
  without a host, which is rejected with the host-missing error.
\<close>

theorem C8_oauth_precedence_counterexample:
  "truthy (getprop (property [(''oauth'', Obj [(''consumer_key'', Str (js ''ck'')),
              (''private_key'', Str (js ''pk'')), (''token'', Str (js ''t'')),
              (''token_secret'', Str (js ''ts''))]),
            (''basic_auth'', Obj [(''username'', Str (js ''u'')), (''password'', Str (js ''p''))])]
          ''oauth'') ''consumer_key'')
   \<and> JiraClient [(''oauth'', Obj [(''consumer_key'', Str (js ''ck'')),
              (''private_key'', Str (js ''pk'')), (''token'', Str (js ''t'')),
              (''token_secret'', Str (js ''ts''))]),
            (''basic_auth'', Obj [(''username'', Str (js ''u'')), (''password'', Str (js ''p''))])]
       = Inl (Error NO_HOST_ERROR)"
  by (simp add: JiraClient_def property_def js_def)

text \<open>
  Claim C8, amended: for every configuration that has a host and complete OAuth credentials,
  construction succeeds, stores the OAuth configuration (with the signature method set) and
  stores no basic-auth credentials; whatever the configuration holds under \<open>basic_auth\<close> is
  neither validated nor retained, so replacing it by any value \<open>ba\<close> changes nothing.
\<close>

theorem C8_oauth_precedence:
  assumes "truthy (property config ''host'')"
    and "property config ''oauth'' = Obj oa"
    and "truthy (property oa ''consumer_key'')"
    and "truthy (property oa ''private_key'')"
    and "truthy (property oa ''token'')"
    and "truthy (property oa ''token_secret'')"
  shows "JiraClient config =
           Inr \<lparr> host = property config ''host'',
                 protocol = (if truthy (property config ''protocol'')
                             then property config ''protocol'' else Str (js ''https'')),
                 port = property config ''port'',
                 version = Num 2,
                 oauthConfig = Obj (AList.update ''signature_method'' (Str (js ''RSA-SHA1'')) oa),
                 basic_auth = Undefined \<rparr>
       \<and> JiraClient (AList.update ''basic_auth'' ba config) = JiraClient config"
  using assms by (simp add: JiraClient_def property_update)

theorem C8_oauth_precedence_witness:
  "JiraClient [(''host'', Str (js ''h'')),
               (''oauth'', Obj [(''consumer_key'', Str (js ''ck'')), (''private_key'', Str (js ''pk'')),
                                (''token'', Str (js ''t'')), (''token_secret'', Str (js ''ts''))]),
               (''basic_auth'', Obj [(''password'', Str [])])]
     = Inr \<lparr> host = Str (js ''h''), protocol = Str (js ''https''), port = Undefined, version = Num 2,
             oauthConfig = Obj [(''consumer_key'', Str (js ''ck'')), (''private_key'', Str (js ''pk'')),
                                (''token'', Str (js ''t'')), (''token_secret'', Str (js ''ts'')),
                                (''signature_method'', Str (js ''RSA-SHA1''))],
             basic_auth = Undefined \<rparr>"
  using C8_oauth_precedence [of
    "[(''host'', Str (js ''h'')),
      (''oauth'', Obj [(''consumer_key'', Str (js ''ck'')), (''private_key'', Str (js ''pk'')),
                       (''token'', Str (js ''t'')), (''token_secret'', Str (js ''ts''))]),
      (''basic_auth'', Obj [(''password'', Str [])])]"
    "[(''consumer_key'', Str (js ''ck'')), (''private_key'', Str (js ''pk'')),
      (''token'', Str (js ''t'')), (''token_secret'', Str (js ''ts''))]"]
  by (simp add: property_def js_def)

section \<open>Attaching the authentication to a request\<close>

text \<open>
  Claim C7. On a client constructed with OAuth credentials, \<open>makeRequest\<close> sets
  \<open>options.oauth\<close> to the stored signing configuration and leaves \<open>options.auth\<close> as it
  was, and dispatches those options. On a client constructed with basic-auth credentials
  (and no OAuth credentials, which would take precedence), it sets \<open>options.auth\<close> to the
  stored pair \<open>{user, pass}\<close>, taken from \<open>username\<close> and \<open>password\<close>, and leaves
  \<open>options.oauth\<close> as it was.
\<close>

theorem C7_makeRequest_attaches_auth:
  assumes "JiraClient config = Inr c"
  shows "(truthy (property config ''oauth'') \<longrightarrow>
            setprop (property config ''oauth'') ''signature_method'' (Str (js ''RSA-SHA1''))
              = Inr (oauthConfig c)
          \<and> makeRequest c options =
              (AList.update ''oauth'' (oauthConfig c) options,
               [Request (AList.update ''oauth'' (oauthConfig c) options)])
          \<and> map_of (fst (makeRequest c options)) ''auth'' = map_of options ''auth'')
       \<and> (\<not> truthy (property config ''oauth'') \<and> truthy (property config ''basic_auth'') \<longrightarrow>
            basic_auth c = Obj [(''user'', getprop (property config ''basic_auth'') ''username''),
                                (''pass'', getprop (property config ''basic_auth'') ''password'')]
          \<and> makeRequest c options =
              (AList.update ''auth'' (basic_auth c) options,
               [Request (AList.update ''auth'' (basic_auth c) options)])
          \<and> map_of (fst (makeRequest c options)) ''oauth'' = map_of options ''oauth'')"
proof (intro conjI impI)
  assume "truthy (property config ''oauth'')"
  with assms obtain oa where oa: "property config ''oauth'' = Obj oa"
      "oauthConfig c = Obj (AList.update ''signature_method'' (Str (js ''RSA-SHA1'')) oa)"
    using JiraClient_oauth_stored by blast
  show "setprop (property config ''oauth'') ''signature_method'' (Str (js ''RSA-SHA1''))
          = Inr (oauthConfig c)"
    using oa by simp
  show "makeRequest c options =
          (AList.update ''oauth'' (oauthConfig c) options,
           [Request (AList.update ''oauth'' (oauthConfig c) options)])"
    using oa by (simp add: makeRequest_def)
  then show "map_of (fst (makeRequest c options)) ''auth'' = map_of options ''auth''"
    by (simp add: update_conv')
next
  assume "\<not> truthy (property config ''oauth'') \<and> truthy (property config ''basic_auth'')"
  with assms have stored: "oauthConfig c = Undefined"
      "basic_auth c = Obj [(''user'', getprop (property config ''basic_auth'') ''username''),
                           (''pass'', getprop (property config ''basic_auth'') ''password'')]"
    using JiraClient_basic_stored by blast+
  show "basic_auth c = Obj [(''user'', getprop (property config ''basic_auth'') ''username''),
                            (''pass'', getprop (property config ''basic_auth'') ''password'')]"
    by (rule stored)
  show "makeRequest c options =
          (AList.update ''auth'' (basic_auth c) options,
           [Request (AList.update ''auth'' (basic_auth c) options)])"
    using stored by (simp add: makeRequest_def)
  then show "map_of (fst (makeRequest c options)) ''oauth'' = map_of options ''oauth''"
    by (simp add: update_conv')
qed

theorem C7_makeRequest_attaches_auth_witness:
  "makeRequest \<lparr> host = Str (js ''h''), protocol = Str (js ''https''), port = Undefined,
                 version = Num 2,
                 oauthConfig = Obj [(''consumer_key'', Str (js ''ck'')),
                                    (''private_key'', Str (js ''pk'')), (''token'', Str (js ''t'')),
                                    (''token_secret'', Str (js ''ts'')),
                                    (''signature_method'', Str (js ''RSA-SHA1''))],
                 basic_auth = Undefined \<rparr>
               [(''uri'', Str (js ''u'')), (''auth'', Str (js ''kept''))]
     = ([(''uri'', Str (js ''u'')), (''auth'', Str (js ''kept'')),
         (''oauth'', Obj [(''consumer_key'', Str (js ''ck'')), (''private_key'', Str (js ''pk'')),
                          (''token'', Str (js ''t'')), (''token_secret'', Str (js ''ts'')),
                          (''signature_method'', Str (js ''RSA-SHA1''))])],
        [Request [(''uri'', Str (js ''u'')), (''auth'', Str (js ''kept'')),
           (''oauth'', Obj [(''consumer_key'', Str (js ''ck'')), (''private_key'', Str (js ''pk'')),
                            (''token'', Str (js ''t'')), (''token_secret'', Str (js ''ts'')),
                            (''signature_method'', Str (js ''RSA-SHA1''))])]])
   \<and> makeRequest \<lparr> host = Str (js ''h''), protocol = Str (js ''https''), port = Undefined,
                   version = Num 2, oauthConfig = Undefined,
                   basic_auth = Obj [(''user'', Str (js ''u'')), (''pass'', Str (js ''p''))] \<rparr>
                 [(''uri'', Str (js ''u''))]
     = ([(''uri'', Str (js ''u'')),
         (''auth'', Obj [(''user'', Str (js ''u'')), (''pass'', Str (js ''p''))])],
        [Request [(''uri'', Str (js ''u'')),
                  (''auth'', Obj [(''user'', Str (js ''u'')), (''pass'', Str (js ''p''))])]])"
proof -
  let ?oa = "[(''consumer_key'', Str (js ''ck'')), (''private_key'', Str (js ''pk'')),
              (''token'', Str (js ''t'')), (''token_secret'', Str (js ''ts''))]"
  let ?cfg1 = "[(''host'', Str (js ''h'')), (''oauth'', Obj ?oa)]"
  let ?c1 = "\<lparr> host = Str (js ''h''), protocol = Str (js ''https''), port = Undefined,
                version = Num 2,
                oauthConfig = Obj [(''consumer_key'', Str (js ''ck'')),
                                   (''private_key'', Str (js ''pk'')), (''token'', Str (js ''t'')),
                                   (''token_secret'', Str (js ''ts'')),
                                   (''signature_method'', Str (js ''RSA-SHA1''))],
                basic_auth = Undefined \<rparr>"
  let ?cfg2 = "[(''host'', Str (js ''h'')),
                (''basic_auth'', Obj [(''username'', Str (js ''u'')), (''password'', Str (js ''p''))])]"
  let ?c2 = "\<lparr> host = Str (js ''h''), protocol = Str (js ''https''), port = Undefined,
                version = Num 2, oauthConfig = Undefined,
                basic_auth = Obj [(''user'', Str (js ''u'')), (''pass'', Str (js ''p''))] \<rparr>"
  have built1: "JiraClient ?cfg1 = Inr ?c1"
    by (simp add: JiraClient_def property_def js_def)
  have built2: "JiraClient ?cfg2 = Inr ?c2"
    by (simp add: JiraClient_def property_def js_def)
  have mode1: "truthy (property ?cfg1 ''oauth'')"
    by (simp add: property_def)
  have mode2: "\<not> truthy (property ?cfg2 ''oauth'') \<and> truthy (property ?cfg2 ''basic_auth'')"
    by (simp add: property_def)
  from C7_makeRequest_attaches_auth [OF built1, of "[(''uri'', Str (js ''u'')), (''auth'', Str (js ''kept''))]"] mode1
  have one: "makeRequest ?c1 [(''uri'', Str (js ''u'')), (''auth'', Str (js ''kept''))]
      = (AList.update ''oauth'' (oauthConfig ?c1) [(''uri'', Str (js ''u'')), (''auth'', Str (js ''kept''))],
         [Request (AList.update ''oauth'' (oauthConfig ?c1) [(''uri'', Str (js ''u'')), (''auth'', Str (js ''kept''))])])"
    by blast
  from C7_makeRequest_attaches_auth [OF built2, of "[(''uri'', Str (js ''u''))]"] mode2
  have two: "makeRequest ?c2 [(''uri'', Str (js ''u''))]
      = (AList.update ''auth'' (basic_auth ?c2) [(''uri'', Str (js ''u''))],
         [Request (AList.update ''auth'' (basic_auth ?c2) [(''uri'', Str (js ''u''))])])"
    by blast
  from one two show ?thesis by simp
qed

text \<open>
  Claim C1 says that a client holding neither an OAuth configuration nor basic-auth
  credentials has its callback called once with \<open>NO_AUTHENTICATION_ERROR\<close> and that the
  request is never dispatched. The \<open>else\<close> branch of \<open>makeRequest\<close> calls the callback and
  does not return, so the call to the transport that follows the \<open>if\<close> runs all the same:
  on such a client the callback is called and then the request is dispatched.
\<close>

theorem C1_makeRequest_without_auth_dispatches:
  "makeRequest \<lparr> host = Str (js ''example.com''), protocol = Str (js ''https''),
                 port = Undefined, version = Num 2, oauthConfig = Undefined, basic_auth = Undefined \<rparr>
               [(''uri'', Str (js ''https://example.com/rest/api/2/issue/TEST-1''))]
     = ([(''uri'', Str (js ''https://example.com/rest/api/2/issue/TEST-1''))],
        [Callback NO_AUTHENTICATION_ERROR,
         Request [(''uri'', Str (js ''https://example.com/rest/api/2/issue/TEST-1''))]])"
  by (simp add: makeRequest_def)

section \<open>Falsy fields\<close>

text \<open>
  Claim C10, as stated: a required field equal to the empty string is rejected as an absent
  one is, an OAuth field equal to \<open>""\<close> failing with that field's own error and a username
  or password equal to \<open>""\<close> with the corresponding error. The tests run in a fixed order
  and the first failure is the one reported: \<open>{oauth: {consumer_key: ""}}\<close> without a host
  fails with the host-missing error; \<open>{host, oauth: {private_key: ""}}\<close> fails with the
  consumer-key error, its consumer key being absent; and with complete OAuth credentials a
  \<open>basic_auth\<close> whose username is \<open>""\<close> is not looked at, so construction succeeds.
\<close>

theorem C10_falsy_field_as_absent_counterexample:
  "JiraClient [(''oauth'', Obj [(''consumer_key'', Str [])])]
     = Inl (Error NO_HOST_ERROR)
   \<and> JiraClient [(''oauth'', Obj [(''consumer_key'', Str [])])]
     \<noteq> Inl (Error NO_CONSUMER_KEY_ERROR)
   \<and> JiraClient [(''host'', Str (js ''h'')),
      (''oauth'', Obj [(''private_key'', Str [])])]
     = Inl (Error NO_CONSUMER_KEY_ERROR)
   \<and> JiraClient [(''host'', Str (js ''h'')),
      (''oauth'', Obj [(''private_key'', Str [])])]
     \<noteq> Inl (Error NO_PRIVATE_KEY_ERROR)
   \<and> JiraClient [(''host'', Str (js ''h'')),
      (''oauth'', Obj [(''consumer_key'', Str (js ''ck'')), (''private_key'', Str (js ''pk'')), (''token'', Str (js ''t'')), (''token_secret'', Str (js ''ts''))]),
      (''basic_auth'', Obj [(''username'', Str []), (''password'', Str (js ''p''))])]
     = Inr \<lparr> host = Str (js ''h''), protocol = Str (js ''https''), port = Undefined,
             version = Num 2,
             oauthConfig = Obj [(''consumer_key'', Str (js ''ck'')), (''private_key'', Str (js ''pk'')),
                                (''token'', Str (js ''t'')), (''token_secret'', Str (js ''ts'')),
                                (''signature_method'', Str (js ''RSA-SHA1''))],
             basic_auth = Undefined \<rparr>
   \<and> JiraClient [(''host'', Str (js ''h'')),
      (''oauth'', Obj [(''consumer_key'', Str (js ''ck'')), (''private_key'', Str (js ''pk'')), (''token'', Str (js ''t'')), (''token_secret'', Str (js ''ts''))]),
      (''basic_auth'', Obj [(''username'', Str []), (''password'', Str (js ''p''))])]
     \<noteq> Inl (Error NO_USERNAME_ERROR)"
  by (simp add: JiraClient_def property_def js_def)

text \<open>
  Claim C10, amended: every required field is validated by truthiness, so a field holding the
  empty string, or any other falsy value, is rejected exactly as an absent one is. A falsy
  host fails with the host-missing error. On a configuration that has a host and OAuth
  credentials, a falsy OAuth field fails with that field's own error when the fields before
  it in the order \<open>consumer_key\<close>, \<open>private_key\<close>, \<open>token\<close>, \<open>token_secret\<close> are truthy, and
  construction succeeds when all four are. On a configuration that has a host, no OAuth
  credentials and basic-auth credentials, a falsy username fails with the username error, a
  falsy password after a truthy username with the password error, and construction succeeds
  when both are truthy. A falsy protocol is replaced by \<open>https\<close>, a truthy one is kept. And
  for each of these fields, construction gives the same result with the field set to a falsy
  value \<open>v\<close> as with the field removed.
\<close>

theorem C10_falsy_field_as_absent:
  "\<not> truthy (Str [])
 \<and> (\<not> truthy (property config ''host'') \<longrightarrow>
    JiraClient config = Inl (Error NO_HOST_ERROR))
 \<and> (truthy (property config ''host'') \<and> truthy (property config ''oauth'') \<longrightarrow>
      (\<not> truthy (getprop (property config ''oauth'') ''consumer_key'') \<longrightarrow>
       JiraClient config = Inl (Error NO_CONSUMER_KEY_ERROR))
    \<and> (truthy (getprop (property config ''oauth'') ''consumer_key'') \<and>
     \<not> truthy (getprop (property config ''oauth'') ''private_key'') \<longrightarrow>
       JiraClient config = Inl (Error NO_PRIVATE_KEY_ERROR))
    \<and> (truthy (getprop (property config ''oauth'') ''consumer_key'') \<and>
     truthy (getprop (property config ''oauth'') ''private_key'') \<and>
     \<not> truthy (getprop (property config ''oauth'') ''token'') \<longrightarrow>
       JiraClient config = Inl (Error NO_OAUTH_TOKEN_ERROR))
    \<and> (truthy (getprop (property config ''oauth'') ''consumer_key'') \<and>
     truthy (getprop (property config ''oauth'') ''private_key'') \<and>
     truthy (getprop (property config ''oauth'') ''token'') \<and>
     \<not> truthy (getprop (property config ''oauth'') ''token_secret'') \<longrightarrow>
       JiraClient config = Inl (Error NO_OAUTH_TOKEN_SECRET_ERROR))
    \<and> (truthy (getprop (property config ''oauth'') ''consumer_key'') \<and>
     truthy (getprop (property config ''oauth'') ''private_key'') \<and>
     truthy (getprop (property config ''oauth'') ''token'') \<and>
     truthy (getprop (property config ''oauth'') ''token_secret'') \<longrightarrow>
       (\<exists>c'. JiraClient config = Inr c')))
 \<and> (truthy (property config ''host'') \<and> \<not> truthy (property config ''oauth'') \<and> truthy (property config ''basic_auth'') \<longrightarrow>
      (\<not> truthy (getprop (property config ''basic_auth'') ''username'') \<longrightarrow>
       JiraClient config = Inl (Error NO_USERNAME_ERROR))
    \<and> (truthy (getprop (property config ''basic_auth'') ''username'') \<and>
     \<not> truthy (getprop (property config ''basic_auth'') ''password'') \<longrightarrow>
       JiraClient config = Inl (Error NO_PASSWORD_ERROR))
    \<and> (truthy (getprop (property config ''basic_auth'') ''username'') \<and>
     truthy (getprop (property config ''basic_auth'') ''password'') \<longrightarrow>
       (\<exists>c'. JiraClient config = Inr c')))
 \<and> (JiraClient config = Inr c \<longrightarrow>
      protocol c = (if truthy (property config ''protocol'') then property config ''protocol''
                    else Str (js ''https'')))
 \<and> (\<not> truthy v \<longrightarrow>
      JiraClient (AList.update ''host'' v config) = JiraClient (AList.delete ''host'' config)
    \<and> JiraClient (AList.update ''protocol'' v config) = JiraClient (AList.delete ''protocol'' config)
    \<and> JiraClient (AList.update ''oauth'' (Obj (AList.update ''consumer_key'' v oa)) config)
        = JiraClient (AList.update ''oauth'' (Obj (AList.delete ''consumer_key'' oa)) config)
    \<and> JiraClient (AList.update ''oauth'' (Obj (AList.update ''private_key'' v oa)) config)
        = JiraClient (AList.update ''oauth'' (Obj (AList.delete ''private_key'' oa)) config)
    \<and> JiraClient (AList.update ''oauth'' (Obj (AList.update ''token'' v oa)) config)
        = JiraClient (AList.update ''oauth'' (Obj (AList.delete ''token'' oa)) config)
    \<and> JiraClient (AList.update ''oauth'' (Obj (AList.update ''token_secret'' v oa)) config)
        = JiraClient (AList.update ''oauth'' (Obj (AList.delete ''token_secret'' oa)) config)
    \<and> JiraClient (AList.update ''basic_auth'' (Obj (AList.update ''username'' v ba)) config)
        = JiraClient (AList.update ''basic_auth'' (Obj (AList.delete ''username'' ba)) config)
    \<and> JiraClient (AList.update ''basic_auth'' (Obj (AList.update ''password'' v ba)) config)
        = JiraClient (AList.update ''basic_auth'' (Obj (AList.delete ''password'' ba)) config))"
proof (intro conjI)
  show "\<not> truthy (Str [])" by simp
  show "(\<not> truthy (property config ''host'') \<longrightarrow>
    JiraClient config = Inl (Error NO_HOST_ERROR))"
    by (simp add: JiraClient_def)
  show "(truthy (property config ''host'') \<and> truthy (property config ''oauth'') \<longrightarrow>
      (\<not> truthy (getprop (property config ''oauth'') ''consumer_key'') \<longrightarrow>
       JiraClient config = Inl (Error NO_CONSUMER_KEY_ERROR))
    \<and> (truthy (getprop (property config ''oauth'') ''consumer_key'') \<and>
     \<not> truthy (getprop (property config ''oauth'') ''private_key'') \<longrightarrow>
       JiraClient config = Inl (Error NO_PRIVATE_KEY_ERROR))
    \<and> (truthy (getprop (property config ''oauth'') ''consumer_key'') \<and>
     truthy (getprop (property config ''oauth'') ''private_key'') \<and>
     \<not> truthy (getprop (property config ''oauth'') ''token'') \<longrightarrow>
       JiraClient config = Inl (Error NO_OAUTH_TOKEN_ERROR))
    \<and> (truthy (getprop (property config ''oauth'') ''consumer_key'') \<and>
     truthy (getprop (property config ''oauth'') ''private_key'') \<and>
     truthy (getprop (property config ''oauth'') ''token'') \<and>
     \<not> truthy (getprop (property config ''oauth'') ''token_secret'') \<longrightarrow>
       JiraClient config = Inl (Error NO_OAUTH_TOKEN_SECRET_ERROR))
    \<and> (truthy (getprop (property config ''oauth'') ''consumer_key'') \<and>
     truthy (getprop (property config ''oauth'') ''private_key'') \<and>
     truthy (getprop (property config ''oauth'') ''token'') \<and>
     truthy (getprop (property config ''oauth'') ''token_secret'') \<longrightarrow>
       (\<exists>c'. JiraClient config = Inr c')))"
    by (auto simp: JiraClient_def Let_def dest!: truthy_getprop_Obj)
  show "(truthy (property config ''host'') \<and> \<not> truthy (property config ''oauth'') \<and> truthy (property config ''basic_auth'') \<longrightarrow>
      (\<not> truthy (getprop (property config ''basic_auth'') ''username'') \<longrightarrow>
       JiraClient config = Inl (Error NO_USERNAME_ERROR))
    \<and> (truthy (getprop (property config ''basic_auth'') ''username'') \<and>
     \<not> truthy (getprop (property config ''basic_auth'') ''password'') \<longrightarrow>
       JiraClient config = Inl (Error NO_PASSWORD_ERROR))
    \<and> (truthy (getprop (property config ''basic_auth'') ''username'') \<and>
     truthy (getprop (property config ''basic_auth'') ''password'') \<longrightarrow>
       (\<exists>c'. JiraClient config = Inr c')))"
    by (simp add: JiraClient_def Let_def)
  show "(JiraClient config = Inr c \<longrightarrow>
      protocol c = (if truthy (property config ''protocol'') then property config ''protocol''
                    else Str (js ''https'')))"
    by (auto simp: JiraClient_def Let_def split: if_splits sum.splits)
  show "(\<not> truthy v \<longrightarrow>
      JiraClient (AList.update ''host'' v config) = JiraClient (AList.delete ''host'' config)
    \<and> JiraClient (AList.update ''protocol'' v config) = JiraClient (AList.delete ''protocol'' config)
    \<and> JiraClient (AList.update ''oauth'' (Obj (AList.update ''consumer_key'' v oa)) config)
        = JiraClient (AList.update ''oauth'' (Obj (AList.delete ''consumer_key'' oa)) config)
    \<and> JiraClient (AList.update ''oauth'' (Obj (AList.update ''private_key'' v oa)) config)
        = JiraClient (AList.update ''oauth'' (Obj (AList.delete ''private_key'' oa)) config)
    \<and> JiraClient (AList.update ''oauth'' (Obj (AList.update ''token'' v oa)) config)
        = JiraClient (AList.update ''oauth'' (Obj (AList.delete ''token'' oa)) config)
    \<and> JiraClient (AList.update ''oauth'' (Obj (AList.update ''token_secret'' v oa)) config)
        = JiraClient (AList.update ''oauth'' (Obj (AList.delete ''token_secret'' oa)) config)
    \<and> JiraClient (AList.update ''basic_auth'' (Obj (AList.update ''username'' v ba)) config)
        = JiraClient (AList.update ''basic_auth'' (Obj (AList.delete ''username'' ba)) config)
    \<and> JiraClient (AList.update ''basic_auth'' (Obj (AList.update ''password'' v ba)) config)
        = JiraClient (AList.update ''basic_auth'' (Obj (AList.delete ''password'' ba)) config))"
  proof (intro impI conjI)
    assume falsy: "\<not> truthy v"
    show "JiraClient (AList.update ''host'' v config) = JiraClient (AList.delete ''host'' config)"
      using falsy
      by (simp add: JiraClient_def Let_def property_update property_delete cong: if_cong)
    show "JiraClient (AList.update ''protocol'' v config) = JiraClient (AList.delete ''protocol'' config)"
      using falsy
      by (simp add: JiraClient_def Let_def property_update property_delete cong: if_cong)
    show "JiraClient (AList.update ''oauth'' (Obj (AList.update ''consumer_key'' v oa)) config)
        = JiraClient (AList.update ''oauth'' (Obj (AList.delete ''consumer_key'' oa)) config)"
      using falsy
      by (simp add: JiraClient_def Let_def property_update property_delete cong: if_cong)
    show "JiraClient (AList.update ''oauth'' (Obj (AList.update ''private_key'' v oa)) config)
        = JiraClient (AList.update ''oauth'' (Obj (AList.delete ''private_key'' oa)) config)"
      using falsy
      by (simp add: JiraClient_def Let_def property_update property_delete cong: if_cong)
    show "JiraClient (AList.update ''oauth'' (Obj (AList.update ''token'' v oa)) config)
        = JiraClient (AList.update ''oauth'' (Obj (AList.delete ''token'' oa)) config)"
      using falsy
      by (simp add: JiraClient_def Let_def property_update property_delete cong: if_cong)
    show "JiraClient (AList.update ''oauth'' (Obj (AList.update ''token_secret'' v oa)) config)
        = JiraClient (AList.update ''oauth'' (Obj (AList.delete ''token_secret'' oa)) config)"
      using falsy
      by (simp add: JiraClient_def Let_def property_update property_delete cong: if_cong)
    show "JiraClient (AList.update ''basic_auth'' (Obj (AList.update ''username'' v ba)) config)
        = JiraClient (AList.update ''basic_auth'' (Obj (AList.delete ''username'' ba)) config)"
      using falsy
      by (simp add: JiraClient_def Let_def property_update property_delete cong: if_cong)
    show "JiraClient (AList.update ''basic_auth'' (Obj (AList.update ''password'' v ba)) config)
        = JiraClient (AList.update ''basic_auth'' (Obj (AList.delete ''password'' ba)) config)"
      using falsy
      by (simp add: JiraClient_def Let_def property_update property_delete cong: if_cong)
  qed
qed

theorem C10_falsy_field_as_absent_witness:
  "JiraClient [(''host'', Str []),
      (''basic_auth'', Obj [(''username'', Str (js ''u'')), (''password'', Str (js ''p''))])]
     = Inl (Error NO_HOST_ERROR)
   \<and> JiraClient [(''host'', Str (js ''h'')),
      (''oauth'', Obj [(''consumer_key'', Str [])])]
     = Inl (Error NO_CONSUMER_KEY_ERROR)
   \<and> JiraClient [(''host'', Str (js ''h'')),
      (''oauth'', Obj [(''consumer_key'', Str (js ''ck'')), (''private_key'', Str [])])]
     = Inl (Error NO_PRIVATE_KEY_ERROR)
   \<and> JiraClient [(''host'', Str (js ''h'')),
      (''oauth'', Obj [(''consumer_key'', Str (js ''ck'')), (''private_key'', Str (js ''pk'')), (''token'', Str [])])]
     = Inl (Error NO_OAUTH_TOKEN_ERROR)
   \<and> JiraClient [(''host'', Str (js ''h'')),
      (''oauth'', Obj [(''consumer_key'', Str (js ''ck'')), (''private_key'', Str (js ''pk'')), (''token'', Str (js ''t'')), (''token_secret'', Str [])])]
     = Inl (Error NO_OAUTH_TOKEN_SECRET_ERROR)
   \<and> JiraClient [(''host'', Str (js ''h'')),
      (''basic_auth'', Obj [(''username'', Str []), (''password'', Str (js ''p''))])]
     = Inl (Error NO_USERNAME_ERROR)
   \<and> JiraClient [(''host'', Str (js ''h'')),
      (''basic_auth'', Obj [(''username'', Str (js ''u'')), (''password'', Str [])])]
     = Inl (Error NO_PASSWORD_ERROR)
   \<and> JiraClient [(''host'', Str (js ''h'')),
      (''basic_auth'', Obj [(''username'', Num 0), (''password'', Str (js ''p''))])]
     = Inl (Error NO_USERNAME_ERROR)
   \<and> JiraClient [(''host'', Str (js ''h'')),
      (''basic_auth'', Obj [(''username'', Str (js ''u'')), (''password'', Null)])]
     = Inl (Error NO_PASSWORD_ERROR)
   \<and> JiraClient [(''host'', Str (js ''h'')),
      (''protocol'', Str []),
      (''basic_auth'', Obj [(''username'', Str (js ''u'')), (''password'', Str (js ''p''))])]
     = Inr \<lparr> host = Str (js ''h''), protocol = Str (js ''https''), port = Undefined,
             version = Num 2, oauthConfig = Undefined,
             basic_auth = Obj [(''user'', Str (js ''u'')), (''pass'', Str (js ''p''))] \<rparr>
   \<and> protocol \<lparr> host = Str (js ''h''), protocol = Str (js ''https''), port = Undefined,
             version = Num 2, oauthConfig = Undefined,
             basic_auth = Obj [(''user'', Str (js ''u'')), (''pass'', Str (js ''p''))] \<rparr>
     = Str (js ''https'')"
proof -
  have h: "JiraClient [(''host'', Str []),
      (''basic_auth'', Obj [(''username'', Str (js ''u'')), (''password'', Str (js ''p''))])]
     = Inl (Error NO_HOST_ERROR)"
    using C10_falsy_field_as_absent
            [where config = "[(''host'', Str []),
      (''basic_auth'', Obj [(''username'', Str (js ''u'')), (''password'', Str (js ''p''))])]",
             THEN conjunct2, THEN conjunct1]
    by (simp add: property_def js_def)
  have ck: "JiraClient [(''host'', Str (js ''h'')),
      (''oauth'', Obj [(''consumer_key'', Str [])])]
     = Inl (Error NO_CONSUMER_KEY_ERROR)"
    using C10_falsy_field_as_absent
            [where config = "[(''host'', Str (js ''h'')),
      (''oauth'', Obj [(''consumer_key'', Str [])])]",
             THEN conjunct2, THEN conjunct2, THEN conjunct1]
    by (simp add: property_def js_def)
  have pk: "JiraClient [(''host'', Str (js ''h'')),
      (''oauth'', Obj [(''consumer_key'', Str (js ''ck'')), (''private_key'', Str [])])]
     = Inl (Error NO_PRIVATE_KEY_ERROR)"
    using C10_falsy_field_as_absent
            [where config = "[(''host'', Str (js ''h'')),
      (''oauth'', Obj [(''consumer_key'', Str (js ''ck'')), (''private_key'', Str [])])]",
             THEN conjunct2, THEN conjunct2, THEN conjunct1]
    by (simp add: property_def js_def)
  have tok: "JiraClient [(''host'', Str (js ''h'')),
      (''oauth'', Obj [(''consumer_key'', Str (js ''ck'')), (''private_key'', Str (js ''pk'')), (''token'', Str [])])]
     = Inl (Error NO_OAUTH_TOKEN_ERROR)"
    using C10_falsy_field_as_absent
            [where config = "[(''host'', Str (js ''h'')),
      (''oauth'', Obj [(''consumer_key'', Str (js ''ck'')), (''private_key'', Str (js ''pk'')), (''token'', Str [])])]",
             THEN conjunct2, THEN conjunct2, THEN conjunct1]
    by (simp add: property_def js_def)
  have ts: "JiraClient [(''host'', Str (js ''h'')),
      (''oauth'', Obj [(''consumer_key'', Str (js ''ck'')), (''private_key'', Str (js ''pk'')), (''token'', Str (js ''t'')), (''token_secret'', Str [])])]
     = Inl (Error NO_OAUTH_TOKEN_SECRET_ERROR)"
    using C10_falsy_field_as_absent
            [where config = "[(''host'', Str (js ''h'')),
      (''oauth'', Obj [(''consumer_key'', Str (js ''ck'')), (''private_key'', Str (js ''pk'')), (''token'', Str (js ''t'')), (''token_secret'', Str [])])]",
             THEN conjunct2, THEN conjunct2, THEN conjunct1]
    by (simp add: property_def js_def)
  have un: "JiraClient [(''host'', Str (js ''h'')),
      (''basic_auth'', Obj [(''username'', Str []), (''password'', Str (js ''p''))])]
     = Inl (Error NO_USERNAME_ERROR)"
    using C10_falsy_field_as_absent
            [where config = "[(''host'', Str (js ''h'')),
      (''basic_auth'', Obj [(''username'', Str []), (''password'', Str (js ''p''))])]",
             THEN conjunct2, THEN conjunct2, THEN conjunct2, THEN conjunct1]
    by (simp add: property_def js_def)
  have pw: "JiraClient [(''host'', Str (js ''h'')),
      (''basic_auth'', Obj [(''username'', Str (js ''u'')), (''password'', Str [])])]
     = Inl (Error NO_PASSWORD_ERROR)"
    using C10_falsy_field_as_absent
            [where config = "[(''host'', Str (js ''h'')),
      (''basic_auth'', Obj [(''username'', Str (js ''u'')), (''password'', Str [])])]",
             THEN conjunct2, THEN conjunct2, THEN conjunct2, THEN conjunct1]
    by (simp add: property_def js_def)
  have zero: "JiraClient [(''host'', Str (js ''h'')),
      (''basic_auth'', Obj [(''username'', Num 0), (''password'', Str (js ''p''))])]
     = Inl (Error NO_USERNAME_ERROR)"
    using C10_falsy_field_as_absent
            [where config = "[(''host'', Str (js ''h'')),
      (''basic_auth'', Obj [(''username'', Num 0), (''password'', Str (js ''p''))])]",
             THEN conjunct2, THEN conjunct2, THEN conjunct2, THEN conjunct1]
    by (simp add: property_def js_def)
  have null: "JiraClient [(''host'', Str (js ''h'')),
      (''basic_auth'', Obj [(''username'', Str (js ''u'')), (''password'', Null)])]
     = Inl (Error NO_PASSWORD_ERROR)"
    using C10_falsy_field_as_absent
            [where config = "[(''host'', Str (js ''h'')),
      (''basic_auth'', Obj [(''username'', Str (js ''u'')), (''password'', Null)])]",
             THEN conjunct2, THEN conjunct2, THEN conjunct2, THEN conjunct1]
    by (simp add: property_def js_def)
  have built: "JiraClient [(''host'', Str (js ''h'')),
      (''protocol'', Str []),
      (''basic_auth'', Obj [(''username'', Str (js ''u'')), (''password'', Str (js ''p''))])]
     = Inr \<lparr> host = Str (js ''h''), protocol = Str (js ''https''), port = Undefined,
             version = Num 2, oauthConfig = Undefined,
             basic_auth = Obj [(''user'', Str (js ''u'')), (''pass'', Str (js ''p''))] \<rparr>"
    by (simp add: JiraClient_def property_def js_def)
  have pr: "protocol \<lparr> host = Str (js ''h''), protocol = Str (js ''https''), port = Undefined,
             version = Num 2, oauthConfig = Undefined,
             basic_auth = Obj [(''user'', Str (js ''u'')), (''pass'', Str (js ''p''))] \<rparr>
     = Str (js ''https'')"
    using C10_falsy_field_as_absent
            [where config = "[(''host'', Str (js ''h'')),
      (''protocol'', Str []),
      (''basic_auth'', Obj [(''username'', Str (js ''u'')), (''password'', Str (js ''p''))])]"
               and c = "\<lparr> host = Str (js ''h''), protocol = Str (js ''https''), port = Undefined,
             version = Num 2, oauthConfig = Undefined,
             basic_auth = Obj [(''user'', Str (js ''u'')), (''pass'', Str (js ''p''))] \<rparr>",
             THEN conjunct2, THEN conjunct2, THEN conjunct2, THEN conjunct2, THEN conjunct1]
          built
    by (simp add: property_def)
  from h ck pk tok ts un pw zero null built pr show ?thesis by blast
qed

section \<open>The URL that \<open>buildURL\<close> returns\<close>

subsection \<open>Escaping the pathname does not change what is decoded\<close>

text \<open>
  \<open>url.format\<close> escapes \<open>#\<close> and \<open>?\<close> in the pathname and \<open>decodeURIComponent\<close> turns the
  two escapes back. The lemmas below follow the decoder through a string \<open>a @ s\<close> whose
  tail \<open>s\<close> has been escaped: each of its parsers either fails on both strings or consumes
  the same octets of both, leaving strings of the same form.
\<close>

lemma js_percent_23: "js ''%23'' = [37, 50, 51]"
  by (simp add: js_def)

lemma js_percent_3F: "js ''%3F'' = [37, 51, 70]"
  by (simp add: js_def)

lemma hex_pair_escape_Nil:
  "hex_pair (escape_pathname s) = map_option (\<lambda>(b, r). (b, escape_pathname r)) (hex_pair s)"
proof (cases s)
  case Nil
  then show ?thesis by (simp add: hex_pair_def)
next
  case (Cons x s1)
  show ?thesis
  proof (cases s1)
    case Nil
    with Cons show ?thesis
      by (simp add: hex_pair_def is_hex_def js_percent_23 js_percent_3F)
  next
    case (Cons y s2)
    with \<open>s = x # s1\<close> show ?thesis
      by (simp add: hex_pair_def is_hex_def js_percent_23 js_percent_3F)
  qed
qed

lemma hex_pair_escape:
  "(hex_pair (a @ escape_pathname s) = None \<and> hex_pair (a @ s) = None) \<or>
   (\<exists>b a' s'. hex_pair (a @ escape_pathname s) = Some (b, a' @ escape_pathname s')
              \<and> hex_pair (a @ s) = Some (b, a' @ s'))"
proof (cases a)
  case Nil
  show ?thesis
  proof (cases "hex_pair s")
    case None
    with Nil show ?thesis by (simp add: hex_pair_escape_Nil)
  next
    case (Some p)
    obtain b r where "p = (b, r)" by (cases p)
    with Some Nil have "hex_pair (a @ escape_pathname s) = Some (b, [] @ escape_pathname r)"
        "hex_pair (a @ s) = Some (b, [] @ r)"
      by (simp_all add: hex_pair_escape_Nil)
    then show ?thesis by blast
  qed
next
  case (Cons u a1)
  show ?thesis
  proof (cases a1)
    case Nil
    show ?thesis
    proof (cases s)
      case Nil
      with \<open>a = u # a1\<close> \<open>a1 = []\<close> show ?thesis by (simp add: hex_pair_def)
    next
      case (Cons v s1)
      show ?thesis
      proof (cases "is_hex u \<and> is_hex v")
        case True
        then have "v \<noteq> 35" "v \<noteq> 63" by (auto simp: is_hex_def)
        with True Cons \<open>a = u # a1\<close> \<open>a1 = []\<close>
        have "hex_pair (a @ escape_pathname s)
                = Some (16 * hex_val u + hex_val v, [] @ escape_pathname s1)"
            "hex_pair (a @ s) = Some (16 * hex_val u + hex_val v, [] @ s1)"
          by (simp_all add: hex_pair_def)
        then show ?thesis by blast
      next
        case False
        with Cons \<open>a = u # a1\<close> \<open>a1 = []\<close> show ?thesis
          by (auto simp: hex_pair_def is_hex_def js_percent_23 js_percent_3F)
      qed
    qed
  next
    case (Cons v a2)
    show ?thesis
    proof (cases "is_hex u \<and> is_hex v")
      case True
      with Cons \<open>a = u # a1\<close>
      have "hex_pair (a @ escape_pathname s)
              = Some (16 * hex_val u + hex_val v, a2 @ escape_pathname s)"
          "hex_pair (a @ s) = Some (16 * hex_val u + hex_val v, a2 @ s)"
        by (simp_all add: hex_pair_def)
      then show ?thesis by blast
    next
      case False
      with Cons \<open>a = u # a1\<close> show ?thesis by (auto simp: hex_pair_def)
    qed
  qed
qed

lemma continuation_percent:
  "continuation (37 # cs) =
     (case hex_pair cs of None \<Rightarrow> None
      | Some (b, rest) \<Rightarrow> if 128 \<le> b \<and> b < 192 then Some (b, rest) else None)"
  by (simp add: continuation_def)

lemma continuation_not_percent: "c \<noteq> 37 \<Longrightarrow> continuation (c # cs) = None"
  by (simp add: continuation_def)

lemma continuation_escape:
  "(continuation (a @ escape_pathname s) = None \<and> continuation (a @ s) = None) \<or>
   (\<exists>b a' s'. continuation (a @ escape_pathname s) = Some (b, a' @ escape_pathname s')
              \<and> continuation (a @ s) = Some (b, a' @ s'))"
proof -
  have percent: "(continuation (37 # a1 @ escape_pathname s1) = None
                    \<and> continuation (37 # a1 @ s1) = None) \<or>
     (\<exists>b a' s'. continuation (37 # a1 @ escape_pathname s1) = Some (b, a' @ escape_pathname s')
                \<and> continuation (37 # a1 @ s1) = Some (b, a' @ s'))" for a1 s1
    using hex_pair_escape [of a1 s1]
  proof (elim disjE conjE exE)
    assume "hex_pair (a1 @ escape_pathname s1) = None" "hex_pair (a1 @ s1) = None"
    then show ?thesis by (simp add: continuation_percent)
  next
    fix b a2 s2
    assume pair: "hex_pair (a1 @ escape_pathname s1) = Some (b, a2 @ escape_pathname s2)"
        "hex_pair (a1 @ s1) = Some (b, a2 @ s2)"
    show ?thesis
    proof (cases "128 \<le> b \<and> b < 192")
      case True
      with pair
      have "continuation (37 # a1 @ escape_pathname s1) = Some (b, a2 @ escape_pathname s2)"
          "continuation (37 # a1 @ s1) = Some (b, a2 @ s2)"
        by (simp_all add: continuation_percent)
      then show ?thesis by blast
    next
      case False
      with pair
      have "continuation (37 # a1 @ escape_pathname s1) = None"
          "continuation (37 # a1 @ s1) = None"
        by (auto simp: continuation_percent)
      then show ?thesis by blast
    qed
  qed
  show ?thesis
  proof (cases a)
    case (Cons c a1)
    show ?thesis
    proof (cases "c = 37")
      case True
      with Cons percent [of a1 s] show ?thesis by simp
    next
      case False
      with Cons show ?thesis by (simp add: continuation_not_percent)
    qed
  next
    case Nil
    show ?thesis
    proof (cases s)
      case Nil
      with \<open>a = []\<close> show ?thesis by (simp add: continuation_def)
    next
      case (Cons c s1)
      consider "c = 37" | "c = 35" | "c = 63" | "c \<noteq> 37" "c \<noteq> 35" "c \<noteq> 63" by blast
      then show ?thesis
      proof cases
        case 1
        with Cons \<open>a = []\<close> percent [of "[]" s1] show ?thesis by simp
      next
        case 2
        with Cons \<open>a = []\<close> show ?thesis
          by (simp add: continuation_def hex_pair_def is_hex_def hex_val_def js_percent_23)
      next
        case 3
        with Cons \<open>a = []\<close> show ?thesis
          by (simp add: continuation_def hex_pair_def is_hex_def hex_val_def js_percent_3F)
      next
        case 4
        with Cons \<open>a = []\<close> show ?thesis by (simp add: continuation_not_percent)
      qed
    qed
  qed
qed

lemma continuations_escape:
  "(continuations n (a @ escape_pathname s) = None \<and> continuations n (a @ s) = None) \<or>
   (\<exists>bs a' s'. continuations n (a @ escape_pathname s) = Some (bs, a' @ escape_pathname s')
               \<and> continuations n (a @ s) = Some (bs, a' @ s'))"
proof (induction n arbitrary: a s)
  case 0
  have "continuations 0 (a @ escape_pathname s) = Some ([], a @ escape_pathname s)"
      "continuations 0 (a @ s) = Some ([], a @ s)"
    by simp_all
  then show ?case by blast
next
  case (Suc n)
  from continuation_escape [of a s] show ?case
  proof (elim disjE conjE exE)
    assume "continuation (a @ escape_pathname s) = None" "continuation (a @ s) = None"
    then show ?thesis by simp
  next
    fix b a1 s1
    assume first: "continuation (a @ escape_pathname s) = Some (b, a1 @ escape_pathname s1)"
        "continuation (a @ s) = Some (b, a1 @ s1)"
    from Suc.IH [of a1 s1] show ?thesis
    proof (elim disjE conjE exE)
      assume "continuations n (a1 @ escape_pathname s1) = None"
          "continuations n (a1 @ s1) = None"
      with first show ?thesis by simp
    next
      fix bs a2 s2
      assume "continuations n (a1 @ escape_pathname s1) = Some (bs, a2 @ escape_pathname s2)"
          "continuations n (a1 @ s1) = Some (bs, a2 @ s2)"
      with first
      have "continuations (Suc n) (a @ escape_pathname s) = Some (b # bs, a2 @ escape_pathname s2)"
          "continuations (Suc n) (a @ s) = Some (b # bs, a2 @ s2)"
        by simp_all
      then show ?thesis by blast
    qed
  qed
qed

lemma decodeURIComponent_percent:
  "decodeURIComponent (37 # cs) =
     (case hex_pair cs of
        None \<Rightarrow> Inl URIError
      | Some (b, rest) \<Rightarrow>
          if b < 128 then
            (case decodeURIComponent rest of Inl e \<Rightarrow> Inl e | Inr r \<Rightarrow> Inr (b # r))
          else if b < 192 \<or> 248 \<le> b then Inl URIError
          else
            (case continuations (octets b - 1) rest of
               None \<Rightarrow> Inl URIError
             | Some (bs, rest') \<Rightarrow>
                 (case utf8_value b bs of
                    None \<Rightarrow> Inl URIError
                  | Some v \<Rightarrow>
                      (case decodeURIComponent rest' of
                         Inl e \<Rightarrow> Inl e
                       | Inr r \<Rightarrow> Inr (utf16 v @ r)))))"
  by simp

lemma decodeURIComponent_plain_char:
  "c \<noteq> 37 \<Longrightarrow> decodeURIComponent (c # cs) =
     (case decodeURIComponent cs of Inl e \<Rightarrow> Inl e | Inr r \<Rightarrow> Inr (c # r))"
  by simp

lemma decodeURIComponent_escape:
  "decodeURIComponent (a @ escape_pathname s) = decodeURIComponent (a @ s)"
proof (induction "length a + length s" arbitrary: a s rule: less_induct)
  case less
  have IH: "decodeURIComponent (a' @ escape_pathname s') = decodeURIComponent (a' @ s')"
    if "length (a' @ s') < length (a @ s)" for a' s'
    using less [of a' s'] that by simp
  have step: "decodeURIComponent (c # a1 @ escape_pathname s1) = decodeURIComponent (c # a1 @ s1)"
    if smaller: "length (a1 @ s1) < length (a @ s)" for c a1 s1
  proof (cases "c = 37")
    case False
    with IH [OF smaller] show ?thesis by (simp add: decodeURIComponent_plain_char)
  next
    case True
    from hex_pair_escape [of a1 s1] show ?thesis
    proof (elim disjE conjE exE)
      assume "hex_pair (a1 @ escape_pathname s1) = None" "hex_pair (a1 @ s1) = None"
      with True show ?thesis by (simp add: decodeURIComponent_percent)
    next
      fix b a2 s2
      assume pair: "hex_pair (a1 @ escape_pathname s1) = Some (b, a2 @ escape_pathname s2)"
          "hex_pair (a1 @ s1) = Some (b, a2 @ s2)"
      from hex_pair_length [OF pair(2)] smaller
      have less2: "length (a2 @ s2) < length (a @ s)" by simp
      show ?thesis
      proof (cases "b < 128")
        case True
        with pair \<open>c = 37\<close> IH [OF less2] show ?thesis
          by (simp add: decodeURIComponent_percent)
      next
        case high: False
        show ?thesis
        proof (cases "b < 192 \<or> 248 \<le> b")
          case True
          with high pair \<open>c = 37\<close> show ?thesis
            by (simp add: decodeURIComponent_percent)
        next
          case lead: False
          from continuations_escape [of "octets b - 1" a2 s2] show ?thesis
          proof (elim disjE conjE exE)
            assume "continuations (octets b - 1) (a2 @ escape_pathname s2) = None"
                "continuations (octets b - 1) (a2 @ s2) = None"
            with high lead pair \<open>c = 37\<close> show ?thesis
              by (simp add: decodeURIComponent_percent)
          next
            fix bs a3 s3
            assume conts:
              "continuations (octets b - 1) (a2 @ escape_pathname s2)
                 = Some (bs, a3 @ escape_pathname s3)"
              "continuations (octets b - 1) (a2 @ s2) = Some (bs, a3 @ s3)"
            from continuations_length [OF conts(2)] less2
            have "length (a3 @ s3) < length (a @ s)" by simp
            from IH [OF this] high lead pair conts \<open>c = 37\<close> show ?thesis
              by (simp add: decodeURIComponent_percent split: option.splits)
          qed
        qed
      qed
    qed
  qed
  show ?case
  proof (cases a)
    case (Cons c a1)
    with step [of a1 s c] show ?thesis by simp
  next
    case Nil
    show ?thesis
    proof (cases s)
      case Nil
      with \<open>a = []\<close> show ?thesis by simp
    next
      case (Cons c s1)
      consider "c = 35" | "c = 63" | "c \<noteq> 35" "c \<noteq> 63" by blast
      then show ?thesis
      proof cases
        case 1
        with Cons \<open>a = []\<close> IH [of "[]" s1] show ?thesis
          by (simp add: js_percent_23 hex_pair_def is_hex_def hex_val_def)
      next
        case 2
        with Cons \<open>a = []\<close> IH [of "[]" s1] show ?thesis
          by (simp add: js_percent_3F hex_pair_def is_hex_def hex_val_def)
      next
        case 3
        with Cons \<open>a = []\<close> step [of "[]" s1 c] show ?thesis by simp
      qed
    qed
  qed
qed

lemma decodeURIComponent_plain: "37 \<notin> set s \<Longrightarrow> decodeURIComponent s = Inr s"
  by (induction s) simp_all

subsection \<open>What \<open>url.format\<close> returns for a slashed protocol\<close>

lemma string_of_nat_nonempty: "string_of_nat n \<noteq> []"
  by (subst string_of_nat.simps) simp

lemma ToString_truthy_nonempty:
  assumes "truthy v" and "ToString v = Inr s"
  shows "s \<noteq> []"
  using assms
  by (cases v) (auto simp: js_def string_of_nat_nonempty split: if_splits)

lemma JiraClient_fields:
  assumes "JiraClient config = Inr c"
  shows "truthy (host c) \<and> version c = Num 2"
  using assms
  by (auto simp: JiraClient_def Let_def split: if_splits sum.splits)

lemma ToString_version: "ToString (Num 2) = Inr (js ''2'')"
  by (simp add: js_def string_of_nat.simps)

lemma format_protocol_slashed:
  assumes "name \<in> set (map js [''http'', ''https'', ''ftp'', ''gopher'', ''file'', ''ws'', ''wss''])"
    and "p = name \<or> p = name @ js '':''"
  shows "format_protocol (Str p) = Inr (name @ js '':'')
       \<and> name @ js '':'' \<in> set slashedProtocol
       \<and> 37 \<notin> set name"
  using assms
  by (auto simp: format_protocol_def slashedProtocol_def js_def)

lemma format_host_plain:
  assumes "truthy hv" and "ToString hv = Inr h" and "58 \<notin> set h"
    and "truthy pv \<longrightarrow> ToString pv = Inr pt"
  shows "format_host hv pv = Inr (h @ (if truthy pv then js '':'' @ pt else []))"
  using assms by (simp add: format_host_def)

lemma url_format_slashed:
  assumes "name \<in> set (map js [''http'', ''https'', ''ftp'', ''gopher'', ''file'', ''ws'', ''wss''])"
    and "p = name \<or> p = name @ js '':''"
    and "truthy hv" and "ToString hv = Inr h" and "58 \<notin> set h"
    and "truthy pv \<longrightarrow> ToString pv = Inr pt"
  shows "url_format (Str p) hv pv (js ''rest/api/'' @ js ''2'' @ path) =
           Inr (name @ js ''://'' @ h @ (if truthy pv then js '':'' @ pt else [])
                @ js ''/rest/api/2'' @ escape_pathname path)"
proof -
  have pathname: "escape_pathname (js ''rest/api/'' @ js ''2'' @ path)
                    = js ''rest/api/2'' @ escape_pathname path"
    by (simp add: js_def)
  have slash: "js ''/'' @ js ''rest/api/2'' @ escape_pathname path
                 = js ''/rest/api/2'' @ escape_pathname path"
    and first: "hd (js ''rest/api/2'' @ escape_pathname path) \<noteq> 47"
    and colon: "(name @ js '':'') @ js ''//'' = name @ js ''://''"
    by (simp_all add: js_def)
  from ToString_truthy_nonempty [OF assms(3,4)] have "h \<noteq> []" .
  with format_protocol_slashed [OF assms(1,2)] format_host_plain [OF assms(3-6)] first
  show ?thesis
    unfolding url_format_def pathname
    by (simp add: slash colon [simplified] Let_def) (simp add: js_def)
qed

subsection \<open>The shape of the URL\<close>

text \<open>
  Claim C2, as stated: on every constructed client and for every path, \<open>buildURL(path)\<close>
  returns \<open><protocol>://<host>[:<port>]/rest/api/2/<path>\<close> percent-decoded, and
  \<open>buildURL("issue/TEST-1")\<close> on host \<open>example.com\<close>, protocol \<open>https\<close>, no port, returns
  \<open>https://example.com/rest/api/2/issue/TEST-1\<close>. On clients the constructor builds:
  the pathname is \<open>'rest/api/' + version + path\<close>, with nothing between the version and the
  path, so that call returns \<open>https://example.com/rest/api/2issue/TEST-1\<close>; a host with a
  colon is put in square brackets; a protocol that \<open>url.format\<close> does not count among the
  slashed ones gets no \<open>//\<close> and the pathname no leading \<open>/\<close>; a malformed percent-escape
  makes \<open>decodeURIComponent\<close> throw a \<open>URIError\<close>; and a port that cannot be made a string
  makes \<open>url.format\<close> throw a \<open>TypeError\<close>.
\<close>

theorem C2_buildURL_shape_counterexample:
  "JiraClient [(''host'', Str (js ''example.com'')),
        (''protocol'', Str (js ''https'')),
        (''basic_auth'', Obj [(''username'', Str (js ''u'')), (''password'', Str (js ''p''))])]
     = Inr \<lparr> host = Str (js ''example.com''), protocol = Str (js ''https''), port = Undefined,
        version = Num 2, oauthConfig = Undefined,
        basic_auth = Obj [(''user'', Str (js ''u'')), (''pass'', Str (js ''p''))] \<rparr>
   \<and> buildURL \<lparr> host = Str (js ''example.com''), protocol = Str (js ''https''), port = Undefined,
        version = Num 2, oauthConfig = Undefined,
        basic_auth = Obj [(''user'', Str (js ''u'')), (''pass'', Str (js ''p''))] \<rparr>
      (js ''issue/TEST-1'')
     = Inr (js ''https://example.com/rest/api/2issue/TEST-1'')
   \<and> buildURL \<lparr> host = Str (js ''example.com''), protocol = Str (js ''https''), port = Undefined,
        version = Num 2, oauthConfig = Undefined,
        basic_auth = Obj [(''user'', Str (js ''u'')), (''pass'', Str (js ''p''))] \<rparr>
      (js ''issue/TEST-1'')
     \<noteq> Inr (js ''https://example.com/rest/api/2/issue/TEST-1'')
   \<and> JiraClient [(''host'', Str (js ''a:b'')),
        (''protocol'', Str (js ''https'')),
        (''basic_auth'', Obj [(''username'', Str (js ''u'')), (''password'', Str (js ''p''))])]
     = Inr \<lparr> host = Str (js ''a:b''), protocol = Str (js ''https''), port = Undefined,
        version = Num 2, oauthConfig = Undefined,
        basic_auth = Obj [(''user'', Str (js ''u'')), (''pass'', Str (js ''p''))] \<rparr>
   \<and> buildURL \<lparr> host = Str (js ''a:b''), protocol = Str (js ''https''), port = Undefined,
        version = Num 2, oauthConfig = Undefined,
        basic_auth = Obj [(''user'', Str (js ''u'')), (''pass'', Str (js ''p''))] \<rparr>
      (js ''/x'')
     = Inr (js ''https://[a:b]/rest/api/2/x'')
   \<and> JiraClient [(''host'', Str (js ''example.com'')),
        (''protocol'', Str (js ''mailto'')),
        (''basic_auth'', Obj [(''username'', Str (js ''u'')), (''password'', Str (js ''p''))])]
     = Inr \<lparr> host = Str (js ''example.com''), protocol = Str (js ''mailto''), port = Undefined,
        version = Num 2, oauthConfig = Undefined,
        basic_auth = Obj [(''user'', Str (js ''u'')), (''pass'', Str (js ''p''))] \<rparr>
   \<and> buildURL \<lparr> host = Str (js ''example.com''), protocol = Str (js ''mailto''), port = Undefined,
        version = Num 2, oauthConfig = Undefined,
        basic_auth = Obj [(''user'', Str (js ''u'')), (''pass'', Str (js ''p''))] \<rparr>
      (js ''/x'')
     = Inr (js ''mailto:example.comrest/api/2/x'')
   \<and> JiraClient [(''host'', Str (js ''example.com'')),
        (''protocol'', Str (js ''https'')),
        (''basic_auth'', Obj [(''username'', Str (js ''u'')), (''password'', Str (js ''p''))])]
     = Inr \<lparr> host = Str (js ''example.com''), protocol = Str (js ''https''), port = Undefined,
        version = Num 2, oauthConfig = Undefined,
        basic_auth = Obj [(''user'', Str (js ''u'')), (''pass'', Str (js ''p''))] \<rparr>
   \<and> buildURL \<lparr> host = Str (js ''example.com''), protocol = Str (js ''https''), port = Undefined,
        version = Num 2, oauthConfig = Undefined,
        basic_auth = Obj [(''user'', Str (js ''u'')), (''pass'', Str (js ''p''))] \<rparr>
      (js ''/50%'')
     = Inl URIError
   \<and> JiraClient [(''host'', Str (js ''example.com'')),
        (''protocol'', Str (js ''https'')),
        (''port'', Obj [(''toString'', Str (js ''x''))]),
        (''basic_auth'', Obj [(''username'', Str (js ''u'')), (''password'', Str (js ''p''))])]
     = Inr \<lparr> host = Str (js ''example.com''), protocol = Str (js ''https''), port = Obj [(''toString'', Str (js ''x''))],
        version = Num 2, oauthConfig = Undefined,
        basic_auth = Obj [(''user'', Str (js ''u'')), (''pass'', Str (js ''p''))] \<rparr>
   \<and> buildURL \<lparr> host = Str (js ''example.com''), protocol = Str (js ''https''), port = Obj [(''toString'', Str (js ''x''))],
        version = Num 2, oauthConfig = Undefined,
        basic_auth = Obj [(''user'', Str (js ''u'')), (''pass'', Str (js ''p''))] \<rparr>
      (js ''/x'')
     = Inl TypeError"
  by (simp add: JiraClient_def property_def buildURL_def url_format_def format_host_def
                format_protocol_def slashedProtocol_def isIpv6Hostname_def hex_pair_def
                is_hex_def js_def string_of_nat.simps)

text \<open>
  Claim C2, amended: for every successfully constructed client whose host, made a string, has
  no colon, whose protocol is one of \<open>http\<close>, \<open>https\<close>, \<open>ftp\<close>, \<open>gopher\<close>, \<open>file\<close>, \<open>ws\<close>,
  \<open>wss\<close> (with or without a final colon) and whose port, when truthy, can be made a string,
  and for every path string, \<open>buildURL(path)\<close> is the percent-decoding of
  \<open><protocol>://<host>[:<port>]/rest/api/2<path>\<close>, the path following the version
  directly (a caller passes a path that begins with \<open>/\<close>); percent-escapes in the path come
  out as the characters they stand for, and a malformed escape makes the decoding, hence the
  call, throw a \<open>URIError\<close>. Where neither host, port nor path contains a \<open>%\<close>, the result is
  that string itself.
\<close>

theorem C2_buildURL_shape:
  assumes "JiraClient config = Inr c"
    and "ToString (host c) = Inr h" and "58 \<notin> set h"
    and "name \<in> set (map js [''http'', ''https'', ''ftp'', ''gopher'', ''file'', ''ws'', ''wss''])"
    and "protocol c = Str name \<or> protocol c = Str (name @ js '':'')"
    and "truthy (port c) \<longrightarrow> ToString (port c) = Inr pt"
  shows "buildURL c path =
           decodeURIComponent
             (name @ js ''://'' @ h @ (if truthy (port c) then js '':'' @ pt else [])
              @ js ''/rest/api/2'' @ path)
       \<and> (37 \<notin> set h \<and> 37 \<notin> set path \<and> (truthy (port c) \<longrightarrow> 37 \<notin> set pt) \<longrightarrow>
            buildURL c path =
              Inr (name @ js ''://'' @ h @ (if truthy (port c) then js '':'' @ pt else [])
                   @ js ''/rest/api/2'' @ path))"
proof -
  let ?pp = "if truthy (port c) then js '':'' @ pt else []"
  let ?prefix = "name @ js ''://'' @ h @ ?pp @ js ''/rest/api/2''"
  from JiraClient_fields [OF assms(1)]
  have hv: "truthy (host c)" and v: "version c = Num 2" by simp_all
  from assms(5) obtain p where p: "protocol c = Str p" "p = name \<or> p = name @ js '':''"
    by auto
  from v have vs: "ToString (version c) = Inr (js ''2'')"
    by (simp only: ToString_version)
  have "buildURL c path = decodeURIComponent (?prefix @ escape_pathname path)"
    using url_format_slashed [OF assms(4) p(2) hv assms(2,3,6), of path] p(1)
    by (simp add: buildURL_def vs)
  also have "\<dots> = decodeURIComponent (?prefix @ path)"
    by (rule decodeURIComponent_escape)
  finally have decoded: "buildURL c path = decodeURIComponent (?prefix @ path)" .
  have plain: "buildURL c path = Inr (?prefix @ path)"
    if "37 \<notin> set h" "37 \<notin> set path" "truthy (port c) \<longrightarrow> 37 \<notin> set pt"
  proof -
    from format_protocol_slashed [OF assms(4) p(2)] have "37 \<notin> set name" by simp
    with that have "37 \<notin> set (?prefix @ path)" by (auto simp: js_def)
    from decodeURIComponent_plain [OF this] decoded show ?thesis by simp
  qed
  from decoded plain show ?thesis by simp
qed

theorem C2_buildURL_shape_witness:
  "buildURL \<lparr> host = Str (js ''example.com''), protocol = Str (js ''https''), port = Undefined,
            version = Num 2, oauthConfig = Undefined,
            basic_auth = Obj [(''user'', Str (js ''u'')), (''pass'', Str (js ''p''))] \<rparr> (js ''/issue/TEST-1'')
     = Inr (js ''https://example.com/rest/api/2/issue/TEST-1'')
   \<and> buildURL \<lparr> host = Str (js ''example.com''), protocol = Str (js ''https:''), port = Num 8080,
            version = Num 2, oauthConfig = Undefined,
            basic_auth = Obj [(''user'', Str (js ''u'')), (''pass'', Str (js ''p''))] \<rparr> (js ''/search?jql=a%20b'')
     = Inr (js ''https://example.com:8080/rest/api/2/search?jql=a b'')
   \<and> buildURL \<lparr> host = Num 5, protocol = Str (js ''https''), port = Undefined,
            version = Num 2, oauthConfig = Undefined,
            basic_auth = Obj [(''user'', Str (js ''u'')), (''pass'', Str (js ''p''))] \<rparr> (js ''/x'') = Inr (js ''https://5/rest/api/2/x'')"
proof -
  let ?cfg0 = "[(''host'', Str (js ''example.com'')),
        (''protocol'', Str (js ''https'')),
        (''basic_auth'', Obj [(''username'', Str (js ''u'')), (''password'', Str (js ''p''))])]"
  let ?c0 = "\<lparr> host = Str (js ''example.com''), protocol = Str (js ''https''), port = Undefined,
        version = Num 2, oauthConfig = Undefined,
        basic_auth = Obj [(''user'', Str (js ''u'')), (''pass'', Str (js ''p''))] \<rparr>"
  let ?cfg1 = "[(''host'', Str (js ''example.com'')),
        (''protocol'', Str (js ''https:'')),
        (''port'', Num 8080),
        (''basic_auth'', Obj [(''username'', Str (js ''u'')), (''password'', Str (js ''p''))])]"
  let ?c1 = "\<lparr> host = Str (js ''example.com''), protocol = Str (js ''https:''), port = Num 8080,
        version = Num 2, oauthConfig = Undefined,
        basic_auth = Obj [(''user'', Str (js ''u'')), (''pass'', Str (js ''p''))] \<rparr>"
  let ?cfg2 = "[(''host'', Num 5),
        (''protocol'', Str (js ''https'')),
        (''basic_auth'', Obj [(''username'', Str (js ''u'')), (''password'', Str (js ''p''))])]"
  let ?c2 = "\<lparr> host = Num 5, protocol = Str (js ''https''), port = Undefined,
        version = Num 2, oauthConfig = Undefined,
        basic_auth = Obj [(''user'', Str (js ''u'')), (''pass'', Str (js ''p''))] \<rparr>"
  have built0: "JiraClient ?cfg0 = Inr ?c0"
    by (simp add: JiraClient_def property_def js_def)
  have built1: "JiraClient ?cfg1 = Inr ?c1"
    by (simp add: JiraClient_def property_def js_def)
  have built2: "JiraClient ?cfg2 = Inr ?c2"
    by (simp add: JiraClient_def property_def js_def)
  have name: "js ''https'' \<in> set (map js [''http'', ''https'', ''ftp'', ''gopher'', ''file'', ''ws'', ''wss''])"
    by simp
  have host01: "ToString (host ?c0) = Inr (js ''example.com'')"
      "ToString (host ?c1) = Inr (js ''example.com'')"
    and colon01: "58 \<notin> set (js ''example.com'')"
    and host2: "ToString (host ?c2) = Inr (js ''5'')" and colon2: "58 \<notin> set (js ''5'')"
    by (simp_all add: js_def string_of_nat.simps)
  have proto: "protocol ?c0 = Str (js ''https'') \<or> protocol ?c0 = Str (js ''https'' @ js '':'')"
      "protocol ?c1 = Str (js ''https'') \<or> protocol ?c1 = Str (js ''https'' @ js '':'')"
      "protocol ?c2 = Str (js ''https'') \<or> protocol ?c2 = Str (js ''https'' @ js '':'')"
    by (simp_all add: js_def)
  have port0: "truthy (port ?c0) \<longrightarrow> ToString (port ?c0) = Inr []"
    and port1: "truthy (port ?c1) \<longrightarrow> ToString (port ?c1) = Inr (js ''8080'')"
    and port2: "truthy (port ?c2) \<longrightarrow> ToString (port ?c2) = Inr []"
    by (simp_all add: js_def string_of_nat.simps)
  have plain0: "37 \<notin> set (js ''example.com'') \<and> 37 \<notin> set (js ''/issue/TEST-1'')
                \<and> (truthy (port ?c0) \<longrightarrow> 37 \<notin> set ([] :: jsstring))"
    and plain2: "37 \<notin> set (js ''5'') \<and> 37 \<notin> set (js ''/x'')
                \<and> (truthy (port ?c2) \<longrightarrow> 37 \<notin> set ([] :: jsstring))"
    by (simp_all add: js_def)
  from C2_buildURL_shape [OF built0 host01(1) colon01 name proto(1) port0,
                          of "js ''/issue/TEST-1''"] plain0
  have "buildURL ?c0 (js ''/issue/TEST-1'')
          = Inr (js ''https'' @ js ''://'' @ js ''example.com''
                 @ (if truthy (port ?c0) then js '':'' @ [] else [])
                 @ js ''/rest/api/2'' @ js ''/issue/TEST-1'')"
    by blast
  then have zero: "buildURL ?c0 (js ''/issue/TEST-1'')
                     = Inr (js ''https://example.com/rest/api/2/issue/TEST-1'')"
    by (simp add: js_def)
  from C2_buildURL_shape [OF built1 host01(2) colon01 name proto(2) port1,
                          of "js ''/search?jql=a%20b''"]
  have "buildURL ?c1 (js ''/search?jql=a%20b'')
          = decodeURIComponent
              (js ''https'' @ js ''://'' @ js ''example.com''
               @ (if truthy (port ?c1) then js '':'' @ js ''8080'' else [])
               @ js ''/rest/api/2'' @ js ''/search?jql=a%20b'')"
    by blast
  also have "\<dots> = Inr (js ''https://example.com:8080/rest/api/2/search?jql=a b'')"
    by (simp add: js_def hex_pair_def is_hex_def hex_val_def)
  finally have one: "buildURL ?c1 (js ''/search?jql=a%20b'')
                       = Inr (js ''https://example.com:8080/rest/api/2/search?jql=a b'')" .
  from C2_buildURL_shape [OF built2 host2 colon2 name proto(3) port2, of "js ''/x''"] plain2
  have "buildURL ?c2 (js ''/x'')
          = Inr (js ''https'' @ js ''://'' @ js ''5''
                 @ (if truthy (port ?c2) then js '':'' @ [] else [])
                 @ js ''/rest/api/2'' @ js ''/x'')"
    by blast
  then have two: "buildURL ?c2 (js ''/x'') = Inr (js ''https://5/rest/api/2/x'')"
    by (simp add: js_def)
  from zero one two show ?thesis by blast
qed

end
